theory Spec2Isabelle
  imports Complex_Main "HOL-Library.Word" "HOL-Library.AList"
begin

section \<open>Conversions between Lua values and C++ values (lua/types.h)\<close>

text \<open>
  The header \<^verbatim>\<open>lua/types.h\<close> defines, for every supported C++ type \<open>T\<close>, a pair
  \<^verbatim>\<open>Type<T>::Push\<close> / \<^verbatim>\<open>Type<T>::To\<close> written against the C API of Lua 5.3.  The
  development has three layers:
  \<^item> a model of the part of the Lua C API the header calls (the stack, table objects,
    the coercions between numbers and strings, table traversal);
  \<^item> the functions of the header, one definition per C++ function, in source order;
  \<^item> the properties of these functions.
\<close>

subsection \<open>Values of the runtime\<close>

text \<open>
  \<^verbatim>\<open>lua_Integer\<close> is a 64-bit two's-complement integer.  A \<^verbatim>\<open>lua_Number\<close> is a C
  \<^verbatim>\<open>double\<close>; a finite double is represented by the rational number it denotes
  (\<open>1.5\<close> is \<open>3/2\<close>).  Infinities and NaN are outside the model.  The C++ types
  \<^verbatim>\<open>int\<close> and \<^verbatim>\<open>uint32_t\<close> are 32-bit words, read with \<open>sint\<close> and \<open>uint\<close>; a
  \<^verbatim>\<open>float\<close> is again the rational it denotes.
\<close>

type_synonym lua_Integer = "64 word"
type_synonym lua_Number = rat
type_synonym c_int = "32 word"
type_synonym uint32_t = "32 word"
type_synonym c_float = rat
type_synonym c_double = rat

text \<open>
  Tables, functions, userdata and threads are objects with identity: the value is a
  reference.  Only tables have contents in this model.
\<close>

datatype lua_value =
    LNil
  | LBoolean bool
  | LLightUserData nat
  | LInteger lua_Integer
  | LFloat lua_Number
  | LString string
  | LTable nat
  | LFunction nat
  | LUserData nat
  | LThread nat

text \<open>
  A table is the list of its entries (key, value) in the order in which \<^verbatim>\<open>lua_next\<close>
  traverses them.  Keys are pairwise different, no key is \<open>nil\<close> and no value is
  \<open>nil\<close>.  The runtime fixes the traversal order only for the array part; properties
  that must not depend on the order are therefore stated for every ordering of the
  entries.
\<close>

type_synonym Table = "(lua_value \<times> lua_value) list"

text \<open>
  The state of the runtime: the stack of the running C function, top first (so that
  index \<open>-1\<close> is the head of the list and index \<open>1\<close> its last element), and the store
  of table objects, addressed by position.
\<close>

record State =
  stack :: "lua_value list"
  heap :: "Table list"

text \<open>
  A call into the runtime that does not return normally: a Lua error raised by the
  runtime (with its message), or a violation of a precondition of the C API or of the C++
  language, after which nothing is known about the program.
\<close>

datatype failure = LuaError string | UndefinedBehaviour

type_synonym 'a result = "failure + 'a"

text \<open>
  Conversions whose results depend on the C library or on the rounding of the floating
  point unit are parameters of the model:
  \<^item> \<open>str2num\<close> is \<^verbatim>\<open>luaO_str2num\<close>, the conversion of a string that spells a numeral
    to an integer (\<open>Inl\<close>) or a float (\<open>Inr\<close>);
  \<^item> \<open>num2str\<close> is the formatting of a float (\<^verbatim>\<open>"%.14g"\<close>) that \<^verbatim>\<open>lua_tolstring\<close>
    uses;
  \<^item> \<open>int2num\<close> is the C conversion of a \<^verbatim>\<open>lua_Integer\<close> to a \<^verbatim>\<open>lua_Number\<close>, which
    rounds beyond \<open>2 ^ 53\<close>;
  \<^item> \<open>double2float\<close> is the C++ conversion of a \<^verbatim>\<open>double\<close> to a \<^verbatim>\<open>float\<close>.
  Every theorem below holds for all values of these parameters.
\<close>

record numerics =
  str2num :: "string \<Rightarrow> (lua_Integer + lua_Number) option"
  num2str :: "lua_Number \<Rightarrow> string"
  int2num :: "lua_Integer \<Rightarrow> lua_Number"
  double2float :: "c_double \<Rightarrow> c_float"

subsection \<open>The stack\<close>

text \<open>
  \<^verbatim>\<open>index2addr\<close>: a positive index counts from the bottom of the stack, a negative one
  from the top.  An index that designates no slot reads as the absent value
  (\<^verbatim>\<open>LUA_TNONE\<close>).
\<close>

definition index2addr :: "State \<Rightarrow> int \<Rightarrow> nat option" where
  "index2addr s idx =
     (let top = int (length (stack s)) in
      if 0 < idx \<and> idx \<le> top then Some (nat (top - idx))
      else if idx < 0 \<and> - idx \<le> top then Some (nat (- idx - 1))
      else None)"

definition index2value :: "State \<Rightarrow> int \<Rightarrow> lua_value option" where
  "index2value s idx =
     (case index2addr s idx of None \<Rightarrow> None | Some i \<Rightarrow> Some (stack s ! i))"

definition lua_gettop :: "State \<Rightarrow> int" where
  "lua_gettop s = int (length (stack s))"

definition lua_absindex :: "State \<Rightarrow> int \<Rightarrow> int" where
  "lua_absindex s idx = (if 0 < idx then idx else lua_gettop s + idx + 1)"

text \<open>\<^verbatim>\<open>lua_settop\<close> with a non-negative argument: drops slots or fills with \<open>nil\<close>.\<close>

definition lua_settop :: "State \<Rightarrow> int \<Rightarrow> State" where
  "lua_settop s n =
     (let h = length (stack s) in
      if nat n \<le> h then s\<lparr>stack := drop (h - nat n) (stack s)\<rparr>
      else s\<lparr>stack := replicate (nat n - h) LNil @ stack s\<rparr>)"

definition lua_pop :: "State \<Rightarrow> nat \<Rightarrow> State" where
  "lua_pop s n = s\<lparr>stack := drop n (stack s)\<rparr>"

definition push_value :: "State \<Rightarrow> lua_value \<Rightarrow> State" where
  "push_value s v = s\<lparr>stack := v # stack s\<rparr>"

definition lua_pushnil :: "State \<Rightarrow> State" where
  "lua_pushnil s = push_value s LNil"

definition lua_pushinteger :: "State \<Rightarrow> lua_Integer \<Rightarrow> State" where
  "lua_pushinteger s n = push_value s (LInteger n)"

definition lua_pushnumber :: "State \<Rightarrow> lua_Number \<Rightarrow> State" where
  "lua_pushnumber s n = push_value s (LFloat n)"

definition lua_pushboolean :: "State \<Rightarrow> bool \<Rightarrow> State" where
  "lua_pushboolean s b = push_value s (LBoolean b)"


text \<open>\<^verbatim>\<open>lua_pushlstring\<close> copies \<open>len\<close> bytes, whatever they are.\<close>

definition lua_pushlstring :: "State \<Rightarrow> string \<Rightarrow> nat \<Rightarrow> State" where
  "lua_pushlstring s str len = push_value s (LString (take len str))"

text \<open>
  A C string ends at its first zero byte: what a \<^verbatim>\<open>const char*\<close> into a buffer
  denotes, and what \<^verbatim>\<open>std::string\<close> and \<^verbatim>\<open>base::StringPiece\<close> copy from it.
\<close>

definition c_str :: "string \<Rightarrow> string" where
  "c_str buf = takeWhile (\<lambda>c. c \<noteq> CHR 0x00) buf"


subsection \<open>Type tags\<close>

text \<open>The tags of \<^verbatim>\<open>lua.h\<close>, which \<^verbatim>\<open>lua_type\<close> returns.\<close>

definition LUA_TNONE :: int where "LUA_TNONE = - 1"
definition LUA_TNIL :: int where "LUA_TNIL = 0"
definition LUA_TBOOLEAN :: int where "LUA_TBOOLEAN = 1"
definition LUA_TLIGHTUSERDATA :: int where "LUA_TLIGHTUSERDATA = 2"
definition LUA_TNUMBER :: int where "LUA_TNUMBER = 3"
definition LUA_TSTRING :: int where "LUA_TSTRING = 4"
definition LUA_TTABLE :: int where "LUA_TTABLE = 5"
definition LUA_TFUNCTION :: int where "LUA_TFUNCTION = 6"
definition LUA_TUSERDATA :: int where "LUA_TUSERDATA = 7"
definition LUA_TTHREAD :: int where "LUA_TTHREAD = 8"

lemmas LUA_T_defs =
  LUA_TNONE_def LUA_TNIL_def LUA_TBOOLEAN_def LUA_TLIGHTUSERDATA_def LUA_TNUMBER_def
  LUA_TSTRING_def LUA_TTABLE_def LUA_TFUNCTION_def LUA_TUSERDATA_def LUA_TTHREAD_def

fun ttype :: "lua_value \<Rightarrow> int" where
  "ttype LNil = LUA_TNIL"
| "ttype (LBoolean _) = LUA_TBOOLEAN"
| "ttype (LLightUserData _) = LUA_TLIGHTUSERDATA"
| "ttype (LInteger _) = LUA_TNUMBER"
| "ttype (LFloat _) = LUA_TNUMBER"
| "ttype (LString _) = LUA_TSTRING"
| "ttype (LTable _) = LUA_TTABLE"
| "ttype (LFunction _) = LUA_TFUNCTION"
| "ttype (LUserData _) = LUA_TUSERDATA"
| "ttype (LThread _) = LUA_TTHREAD"

definition lua_type :: "State \<Rightarrow> int \<Rightarrow> int" where
  "lua_type s idx = (case index2value s idx of None \<Rightarrow> LUA_TNONE | Some v \<Rightarrow> ttype v)"

definition lua_isboolean :: "State \<Rightarrow> int \<Rightarrow> bool" where
  "lua_isboolean s idx = (lua_type s idx = LUA_TBOOLEAN)"


text \<open>\<^verbatim>\<open>lua_toboolean\<close>: every value but \<open>nil\<close>, \<open>false\<close> and the absent value is true.\<close>

definition lua_toboolean :: "State \<Rightarrow> int \<Rightarrow> int" where
  "lua_toboolean s idx =
     (case index2value s idx of
        None \<Rightarrow> 0
      | Some LNil \<Rightarrow> 0
      | Some (LBoolean b) \<Rightarrow> (if b then 1 else 0)
      | Some _ \<Rightarrow> 1)"

subsection \<open>Coercions between numbers and strings\<close>

text \<open>
  A float converts to an integer only if it has an exact integer value that fits
  (\<^verbatim>\<open>luaV_tointeger\<close> in its strict mode).
\<close>

definition flt2integer :: "lua_Number \<Rightarrow> lua_Integer option" where
  "flt2integer q =
     (let f = \<lfloor>q\<rfloor> in
      if of_int f = q \<and> - (2 ^ 63) \<le> f \<and> f < 2 ^ 63 then Some (word_of_int f) else None)"

definition tointeger :: "numerics \<Rightarrow> lua_value \<Rightarrow> lua_Integer option" where
  "tointeger nm v =
     (case v of
        LInteger i \<Rightarrow> Some i
      | LFloat q \<Rightarrow> flt2integer q
      | LString str \<Rightarrow>
          (case str2num nm str of
             None \<Rightarrow> None
           | Some (Inl i) \<Rightarrow> Some i
           | Some (Inr q) \<Rightarrow> flt2integer q)
      | _ \<Rightarrow> None)"

definition tonumber :: "numerics \<Rightarrow> lua_value \<Rightarrow> lua_Number option" where
  "tonumber nm v =
     (case v of
        LInteger i \<Rightarrow> Some (int2num nm i)
      | LFloat q \<Rightarrow> Some q
      | LString str \<Rightarrow>
          (case str2num nm str of
             None \<Rightarrow> None
           | Some (Inl i) \<Rightarrow> Some (int2num nm i)
           | Some (Inr q) \<Rightarrow> Some q)
      | _ \<Rightarrow> None)"

text \<open>
  \<^verbatim>\<open>lua_tointegerx\<close> and \<^verbatim>\<open>lua_tonumberx\<close> return the converted value and the flag
  written through \<^verbatim>\<open>isnum\<close>; on failure the value is \<open>0\<close>.  Neither changes the slot.
\<close>

definition lua_tointegerx :: "numerics \<Rightarrow> State \<Rightarrow> int \<Rightarrow> lua_Integer \<times> int" where
  "lua_tointegerx nm s idx =
     (case index2value s idx of
        None \<Rightarrow> (0, 0)
      | Some v \<Rightarrow> (case tointeger nm v of None \<Rightarrow> (0, 0) | Some i \<Rightarrow> (i, 1)))"

definition lua_tointeger :: "numerics \<Rightarrow> State \<Rightarrow> int \<Rightarrow> lua_Integer" where
  "lua_tointeger nm s idx = fst (lua_tointegerx nm s idx)"

definition lua_tonumberx :: "numerics \<Rightarrow> State \<Rightarrow> int \<Rightarrow> lua_Number \<times> int" where
  "lua_tonumberx nm s idx =
     (case index2value s idx of
        None \<Rightarrow> (0, 0)
      | Some v \<Rightarrow> (case tonumber nm v of None \<Rightarrow> (0, 0) | Some q \<Rightarrow> (q, 1)))"

text \<open>Decimal digits of an integer, as \<^verbatim>\<open>"%lld"\<close> prints them.\<close>

fun nat2str :: "nat \<Rightarrow> string" where
  "nat2str n =
     (if n < 10 then [char_of (48 + n)]
      else nat2str (n div 10) @ [char_of (48 + n mod 10)])"

declare nat2str.simps [simp del]

definition integer2str :: "lua_Integer \<Rightarrow> string" where
  "integer2str i =
     (if sint i < 0 then CHR ''-'' # nat2str (nat (- sint i)) else nat2str (nat (sint i)))"

text \<open>
  \<^verbatim>\<open>lua_tolstring\<close> returns the bytes of a string; a number is first converted
  \<^emph>\<open>in the slot itself\<close> to the string that spells it.  Any other value gives \<^verbatim>\<open>NULL\<close>
  (\<open>None\<close>).  \<^verbatim>\<open>lua_tostring\<close> is the same call without the length.
\<close>

definition lua_tolstring :: "numerics \<Rightarrow> State \<Rightarrow> int \<Rightarrow> string option \<times> State" where
  "lua_tolstring nm s idx =
     (case index2addr s idx of
        None \<Rightarrow> (None, s)
      | Some i \<Rightarrow>
          (case stack s ! i of
             LString str \<Rightarrow> (Some str, s)
           | LInteger n \<Rightarrow>
               (Some (integer2str n), s\<lparr>stack := (stack s)[i := LString (integer2str n)]\<rparr>)
           | LFloat q \<Rightarrow>
               (Some (num2str nm q), s\<lparr>stack := (stack s)[i := LString (num2str nm q)]\<rparr>)
           | _ \<Rightarrow> (None, s)))"

definition lua_tostring :: "numerics \<Rightarrow> State \<Rightarrow> int \<Rightarrow> string option \<times> State" where
  "lua_tostring nm s idx = lua_tolstring nm s idx"

subsection \<open>Tables\<close>

text \<open>
  \<^verbatim>\<open>lua_createtable\<close> allocates an empty table and pushes the reference; the two size
  hints only preallocate.
\<close>

definition lua_createtable :: "State \<Rightarrow> nat \<Rightarrow> nat \<Rightarrow> State" where
  "lua_createtable s narr nrec =
     s\<lparr>stack := LTable (length (heap s)) # stack s, heap := heap s @ [[]]\<rparr>"

text \<open>
  A float key with an exact integer value is stored under the integer.  Storing \<open>nil\<close>
  removes the entry; a new key is entered at the end of the traversal order.
\<close>

definition key_norm :: "lua_value \<Rightarrow> lua_value" where
  "key_norm k =
     (case k of
        LFloat q \<Rightarrow> (case flt2integer q of None \<Rightarrow> k | Some i \<Rightarrow> LInteger i)
      | _ \<Rightarrow> k)"

definition luaH_set :: "Table \<Rightarrow> lua_value \<Rightarrow> lua_value \<Rightarrow> Table" where
  "luaH_set t k v =
     (if v = LNil then AList.delete (key_norm k) t else AList.update (key_norm k) v t)"

text \<open>
  \<^verbatim>\<open>lua_rawset(L, idx)\<close>: \<open>t[k] = v\<close> for the table \<open>t\<close> at \<open>idx\<close>, the value \<open>v\<close> on top
  and the key \<open>k\<close> below it; pops both.  A \<open>nil\<close> key raises an error; a slot that
  holds no table violates the precondition of the call.
\<close>

definition lua_rawset :: "State \<Rightarrow> int \<Rightarrow> State result" where
  "lua_rawset s idx =
     (case index2value s idx of
        Some (LTable a) \<Rightarrow>
          (case stack s of
             v # k # rest \<Rightarrow>
               if length (heap s) \<le> a then Inl UndefinedBehaviour
               else if k = LNil then Inl (LuaError ''table index is nil'')
               else Inr (s\<lparr>stack := rest, heap := (heap s)[a := luaH_set (heap s ! a) k v]\<rparr>)
           | _ \<Rightarrow> Inl UndefinedBehaviour)
      | _ \<Rightarrow> Inl UndefinedBehaviour)"

text \<open>
  \<^verbatim>\<open>luaH_next\<close>: the entry after key \<open>k\<close> in traversal order, the first entry for
  \<open>nil\<close>, \<open>None\<close> at the end.  A key that is not in the table raises an error.
\<close>

definition luaH_next :: "Table \<Rightarrow> lua_value \<Rightarrow> (lua_value \<times> lua_value) option result" where
  "luaH_next t k =
     (if k = LNil then Inr (case t of [] \<Rightarrow> None | e # _ \<Rightarrow> Some e)
      else
        (case dropWhile (\<lambda>e. fst e \<noteq> k) t of
           [] \<Rightarrow> Inl (LuaError ''invalid key to next'')
         | _ # after \<Rightarrow> Inr (case after of [] \<Rightarrow> None | e # _ \<Rightarrow> Some e)))"

text \<open>
  \<^verbatim>\<open>lua_next(L, idx)\<close> pops a key and pushes the next key and its value from the table
  at \<open>idx\<close>, returning non-zero; at the end of the table it pushes nothing and returns
  \<open>0\<close>.  The index is resolved \<^emph>\<open>with the key still on the stack\<close>.  The runtime does
  not check that the slot holds a table.
\<close>

definition lua_next :: "State \<Rightarrow> int \<Rightarrow> (int \<times> State) result" where
  "lua_next s idx =
     (case index2value s idx of
        Some (LTable a) \<Rightarrow>
          (case stack s of
             k # rest \<Rightarrow>
               if length (heap s) \<le> a then Inl UndefinedBehaviour
               else
                 (case luaH_next (heap s ! a) k of
                    Inl e \<Rightarrow> Inl e
                  | Inr None \<Rightarrow> Inr (0, s\<lparr>stack := rest\<rparr>)
                  | Inr (Some (k', v)) \<Rightarrow> Inr (1, s\<lparr>stack := v # k' # rest\<rparr>))
           | [] \<Rightarrow> Inl UndefinedBehaviour)
      | _ \<Rightarrow> Inl UndefinedBehaviour)"

subsection \<open>Helpers of the repository used by the header\<close>

text \<open>
  Modelled from the spec: \<^verbatim>\<open>NewTable\<close> (called by the header, defined outside it).  The
  spec's ``create-new-table (with optional size hints for array part and hash part)'':
  a thin wrapper of \<^verbatim>\<open>lua_createtable\<close>.
\<close>

definition NewTable :: "State \<Rightarrow> nat \<Rightarrow> nat \<Rightarrow> State" where
  "NewTable s arr rec = lua_createtable s arr rec"

text \<open>
  The type of a \<^verbatim>\<open>Push\<close> function.  The scalar ones always return; pushing a container
  can raise an error of the runtime.
\<close>

type_synonym 'a Push = "State \<Rightarrow> 'a \<Rightarrow> State result"

text \<open>
  Modelled from the spec: \<^verbatim>\<open>RawSet\<close> (called by the header, defined outside it).  The
  spec's ``set-table-field (by integer or arbitrary key, value already on top of
  stack)'' and ``write key\<rightarrow>value pairs'': the key and the value are pushed with the
  \<^verbatim>\<open>Push\<close> of their types and stored with a raw set in the table that \<open>index\<close>
  designated before the two pushes.
\<close>

definition RawSet :: "'k Push \<Rightarrow> 'v Push \<Rightarrow> State \<Rightarrow> int \<Rightarrow> 'k \<Rightarrow> 'v \<Rightarrow> State result" where
  "RawSet pushK pushV s index key val =
     (let index' = lua_absindex s index in
      case pushK s key of
        Inl e \<Rightarrow> Inl e
      | Inr s1 \<Rightarrow>
          (case pushV s1 val of
             Inl e \<Rightarrow> Inl e
           | Inr s2 \<Rightarrow> lua_rawset s2 index'))"

text \<open>
  Modelled from the spec: \<^verbatim>\<open>StackAutoReset\<close> (the included lua/stack_auto_reset.h is
  not at hand).  The spec's scoped stack guard: ``on acquisition, records current stack
  height; on release restores stack height by discarding any slots above it''.  The
  constructor is \<open>StackAutoReset\<close>, which yields the recorded height; the destructor is
  \<open>StackAutoReset_release\<close>.
\<close>

definition StackAutoReset :: "State \<Rightarrow> int" where
  "StackAutoReset s = lua_gettop s"

definition StackAutoReset_release :: "int \<Rightarrow> State \<Rightarrow> State" where
  "StackAutoReset_release h0 s = lua_settop s h0"

text \<open>
  Modelled from the spec: the \<^verbatim>\<open>Push\<close> that \<^verbatim>\<open>RawSet\<close> applies to a key of type
  \<^verbatim>\<open>size_t\<close> (the header has no \<^verbatim>\<open>Type<size_t>\<close>).  The spec's sequence rule writes
  the ``1-based key'' of ``strictly consecutive integer keys'': an integer.
\<close>

definition Push_size_t :: "nat Push" where
  "Push_size_t s n = Inr (lua_pushinteger s (word_of_nat n))"

subsection \<open>lua/types.h: type tags and arity\<close>

datatype LuaType =
    None_t
  | Nil_t
  | Number
  | Boolean
  | String
  | Table
  | Function
  | UserData
  | Thread
  | LightUserData

text \<open>The \<^verbatim>\<open>static_cast\<close> of a tag of the runtime to the enumeration.\<close>

definition to_LuaType :: "int \<Rightarrow> LuaType" where
  "to_LuaType t =
     (if t = LUA_TNIL then Nil_t
      else if t = LUA_TNUMBER then Number
      else if t = LUA_TBOOLEAN then Boolean
      else if t = LUA_TSTRING then String
      else if t = LUA_TTABLE then Table
      else if t = LUA_TFUNCTION then Function
      else if t = LUA_TUSERDATA then UserData
      else if t = LUA_TTHREAD then Thread
      else if t = LUA_TLIGHTUSERDATA then LightUserData
      else None_t)"

definition GetType :: "State \<Rightarrow> int \<Rightarrow> LuaType" where
  "GetType state index = to_LuaType (lua_type state index)"

text \<open>
  The C++ types the templates are instantiated with.  \<open>T_other\<close> stands for any type
  that is neither \<^verbatim>\<open>void\<close> nor a \<^verbatim>\<open>std::tuple\<close> nor listed here.
\<close>

datatype cpp_type =
    T_void
  | T_int
  | T_uint32_t
  | T_float
  | T_double
  | T_bool
  | T_nullptr_t
  | T_void_ptr
  | T_StringPiece
  | T_string
  | T_string16
  | T_const_char_ptr
  | T_const_char_array nat
  | T_tuple "cpp_type list"
  | T_vector cpp_type
  | T_map cpp_type cpp_type
  | T_other string

text \<open>
  \<^verbatim>\<open>Values<T>::count\<close>.  The two specialisations are tried first, the primary template
  is the remaining case.
\<close>

fun Values_count :: "cpp_type \<Rightarrow> int" where
  "Values_count T_void = 0"
| "Values_count (T_tuple ArgTypes) = int (length ArgTypes)"
| "Values_count _ = 1"

subsection \<open>lua/types.h: scalar conversions\<close>

text \<open>
  The type of a \<^verbatim>\<open>To\<close> function: from the state, the index and the contents of \<open>*out\<close>
  before the call to the returned flag, the contents of \<open>*out\<close> after the call and the
  new state.  \<open>Some (Inl e)\<close> is a call that fails with \<open>e\<close> instead of returning and
  \<open>None\<close> is a call that runs forever.
\<close>

type_synonym 'a To = "State \<Rightarrow> int \<Rightarrow> 'a \<Rightarrow> (bool \<times> 'a \<times> State) result option"

text \<open>
  \<^verbatim>\<open>Type<int>\<close>.  \<^verbatim>\<open>lua_pushinteger\<close> takes a \<^verbatim>\<open>lua_Integer\<close>: the \<^verbatim>\<open>int\<close> is sign
  extended.  In \<^verbatim>\<open>To\<close> the initialisation \<^verbatim>\<open>int ret = lua_tointegerx(...)\<close> narrows
  the 64-bit result to its low 32 bits.
\<close>

definition Type_int_Push :: "c_int Push" where
  "Type_int_Push state number = Inr (lua_pushinteger state (scast number))"

definition Type_int_To :: "numerics \<Rightarrow> c_int To" where
  "Type_int_To nm state index out =
     (let (res, success) = lua_tointegerx nm state index;
          ret = (ucast res :: c_int)
      in Some (Inr (success \<noteq> 0, if success \<noteq> 0 then ret else out, state)))"

text \<open>
  \<^verbatim>\<open>Type<uint32_t>\<close>.  The argument of \<^verbatim>\<open>lua_pushinteger\<close> is zero extended.  \<^verbatim>\<open>To\<close>
  goes through the same \<^verbatim>\<open>int ret\<close>; the assignment \<^verbatim>\<open>*out = ret\<close> converts the
  \<^verbatim>\<open>int\<close> to \<^verbatim>\<open>uint32_t\<close>, which keeps the 32 bits.
\<close>

definition Type_uint32_t_Push :: "uint32_t Push" where
  "Type_uint32_t_Push state number = Inr (lua_pushinteger state (ucast number))"

definition Type_uint32_t_To :: "numerics \<Rightarrow> uint32_t To" where
  "Type_uint32_t_To nm state index out =
     (let (res, success) = lua_tointegerx nm state index;
          ret = (ucast res :: c_int)
      in Some (Inr (success \<noteq> 0, if success \<noteq> 0 then (ret :: uint32_t) else out, state)))"

text \<open>
  \<^verbatim>\<open>Type<float>\<close>.  A \<^verbatim>\<open>float\<close> converts to \<^verbatim>\<open>double\<close> exactly;
  \<^verbatim>\<open>float ret = lua_tonumberx(...)\<close> rounds the double to a float.
\<close>

definition Type_float_Push :: "c_float Push" where
  "Type_float_Push state number = Inr (lua_pushnumber state number)"

definition Type_float_To :: "numerics \<Rightarrow> c_float To" where
  "Type_float_To nm state index out =
     (let (res, success) = lua_tonumberx nm state index;
          ret = double2float nm res
      in Some (Inr (success \<noteq> 0, if success \<noteq> 0 then ret else out, state)))"

text \<open>
  The C++ conversion of a \<^verbatim>\<open>double\<close> to \<^verbatim>\<open>int\<close> discards the fractional part; the
  behaviour is undefined if the truncated value is not an \<^verbatim>\<open>int\<close>.
\<close>

definition double_to_int :: "c_double \<Rightarrow> c_int option" where
  "double_to_int d =
     (let t = (if 0 \<le> d then \<lfloor>d\<rfloor> else \<lceil>d\<rceil>) in
      if - (2 ^ 31) \<le> t \<and> t < 2 ^ 31 then Some (word_of_int t) else None)"

definition int_to_double :: "c_int \<Rightarrow> c_double" where
  "int_to_double i = of_int (sint i)"

text \<open>
  \<^verbatim>\<open>Type<double>\<close>.  \<^verbatim>\<open>To\<close> declares \<^verbatim>\<open>int ret = lua_tonumberx(...)\<close>: the number
  read from the slot is converted to \<^verbatim>\<open>int\<close>, and \<^verbatim>\<open>*out = ret\<close> converts that
  \<^verbatim>\<open>int\<close> back to \<^verbatim>\<open>double\<close>.
\<close>

definition Type_double_Push :: "c_double Push" where
  "Type_double_Push state number = Inr (lua_pushnumber state number)"

definition Type_double_To :: "numerics \<Rightarrow> c_double To" where
  "Type_double_To nm state index out =
     (let (res, success) = lua_tonumberx nm state index in
      case double_to_int res of
        None \<Rightarrow> Some (Inl UndefinedBehaviour)
      | Some ret \<Rightarrow>
          Some (Inr (success \<noteq> 0, if success \<noteq> 0 then int_to_double ret else out, state)))"

text \<open>\<^verbatim>\<open>Type<bool>\<close>.\<close>

definition Type_bool_Push :: "bool Push" where
  "Type_bool_Push state b = Inr (lua_pushboolean state b)"

definition Type_bool_To :: "bool To" where
  "Type_bool_To state index out =
     (if \<not> lua_isboolean state index then Some (Inr (False, out, state))
      else Some (Inr (True, lua_toboolean state index \<noteq> 0, state)))"



subsection \<open>lua/types.h: strings\<close>



definition Type_string_Push :: "string Push" where
  "Type_string_Push state str = Inr (lua_pushlstring state str (length str))"

definition Type_string_To :: "numerics \<Rightarrow> string To" where
  "Type_string_To nm state index out =
     (case lua_tostring nm state index of
        (None, state') \<Rightarrow> Some (Inr (False, out, state'))
      | (Some str, state') \<Rightarrow> Some (Inr (True, c_str str, state')))"






subsection \<open>lua/types.h: std::vector\<close>

text \<open>
  \<^verbatim>\<open>Type<std::vector<T>>::Push\<close>.  The template parameter is the \<^verbatim>\<open>Push\<close> of the element
  type.  The loop runs over the elements with their position \<open>i\<close>.
\<close>

fun vector_Push_loop :: "'a Push \<Rightarrow> State \<Rightarrow> nat \<Rightarrow> 'a list \<Rightarrow> State result" where
  "vector_Push_loop pushT state i [] = Inr state"
| "vector_Push_loop pushT state i (v # vs) =
     (case RawSet Push_size_t pushT state (- 1) (i + 1) v of
        Inl e \<Rightarrow> Inl e
      | Inr state' \<Rightarrow> vector_Push_loop pushT state' (i + 1) vs)"

definition Type_vector_Push :: "'a Push \<Rightarrow> 'a list Push" where
  "Type_vector_Push pushT state vec =
     vector_Push_loop pushT (NewTable state (length vec) 0) 0 vec"

text \<open>
  The expression \<^verbatim>\<open>static_cast<int>(out->size() - 1)\<close>: the subtraction is done in
  \<^verbatim>\<open>size_t\<close> and wraps at size \<open>0\<close>; the cast keeps the low 32 bits.  For the
  comparison with the \<^verbatim>\<open>lua_Integer\<close> the \<^verbatim>\<open>int\<close> is sign extended.
\<close>

definition size_minus_1 :: "'a list \<Rightarrow> lua_Integer" where
  "size_minus_1 out = scast (word_of_nat (length out) - 1 :: c_int)"

text \<open>
  The \<^verbatim>\<open>while\<close> loop of \<^verbatim>\<open>Type<std::vector<T>>::To\<close>.  \<open>toT\<close> is the \<^verbatim>\<open>To\<close> of the
  element type and \<open>value0\<close> the contents of the local \<^verbatim>\<open>T value\<close> before the call of
  \<open>toT\<close>.  The result is the returned flag, the vector \<open>*out\<close> and the state at the
  \<^verbatim>\<open>return\<close> statement, before the destructor of the guard runs.
\<close>

partial_function (option) vector_To_loop ::
  "'a To \<Rightarrow> 'a \<Rightarrow> numerics \<Rightarrow> State \<Rightarrow> int \<Rightarrow> 'a list \<Rightarrow> (bool \<times> 'a list \<times> State) result option"
where
  "vector_To_loop toT value0 nm state index out =
     (case lua_next state index of
        Inl e \<Rightarrow> Some (Inl e)
      | Inr (r, s1) \<Rightarrow>
          if r = 0 then Some (Inr (True, out, s1))
          else if GetType s1 (- 2) \<noteq> Number \<or> lua_tointeger nm s1 (- 2) \<noteq> size_minus_1 out
          then Some (Inr (False, out, s1))
          else
            (case toT s1 (- 1) value0 of
               None \<Rightarrow> None
             | Some (Inl e) \<Rightarrow> Some (Inl e)
             | Some (Inr (ok, val, s2)) \<Rightarrow>
                 if \<not> ok then Some (Inr (False, out, s2))
                 else vector_To_loop toT value0 nm (lua_pop s2 1) index (out @ [val])))"

declare vector_To_loop.simps [code]

text \<open>
  What a \<^verbatim>\<open>return\<close> inside the scope of the guard does: the destructor restores the
  height, then the function returns.  A call that does not return runs no destructor.
\<close>

definition leave_scope ::
  "int \<Rightarrow> (bool \<times> 'a \<times> State) result option \<Rightarrow> (bool \<times> 'a \<times> State) result option" where
  "leave_scope reset r =
     (case r of
        None \<Rightarrow> None
      | Some (Inl e) \<Rightarrow> Some (Inl e)
      | Some (Inr (ok, out, s)) \<Rightarrow> Some (Inr (ok, out, StackAutoReset_release reset s)))"

definition Type_vector_To :: "'a To \<Rightarrow> 'a \<Rightarrow> numerics \<Rightarrow> 'a list To" where
  "Type_vector_To toT value0 nm state index out =
     (if GetType state index \<noteq> Table then Some (Inr (False, out, state))
      else
        (let reset = StackAutoReset state in
         leave_scope reset (vector_To_loop toT value0 nm (lua_pushnil state) index out)))"

subsection \<open>lua/types.h: std::map\<close>

text \<open>
  A \<^verbatim>\<open>std::map<K, V>\<close> is represented by the list of its pairs, with pairwise different
  keys; the range-based \<^verbatim>\<open>for\<close> visits them in the order of the list.  The map it
  denotes is \<open>map_of\<close> of the list, and \<^verbatim>\<open>(*out)[key] = value\<close> is \<open>AList.update\<close>.
\<close>

type_synonym ('k, 'v) std_map = "('k \<times> 'v) list"

fun map_Push_loop :: "'k Push \<Rightarrow> 'v Push \<Rightarrow> State \<Rightarrow> ('k, 'v) std_map \<Rightarrow> State result" where
  "map_Push_loop pushK pushV state [] = Inr state"
| "map_Push_loop pushK pushV state (it # rest) =
     (case RawSet pushK pushV state (- 1) (fst it) (snd it) of
        Inl e \<Rightarrow> Inl e
      | Inr state' \<Rightarrow> map_Push_loop pushK pushV state' rest)"

definition Type_map_Push :: "'k Push \<Rightarrow> 'v Push \<Rightarrow> ('k, 'v) std_map Push" where
  "Type_map_Push pushK pushV state dict =
     map_Push_loop pushK pushV (NewTable state 0 (length dict)) dict"

text \<open>
  The \<^verbatim>\<open>while\<close> loop of \<^verbatim>\<open>Type<std::map<K, V>>::To\<close>.  The value is converted only if
  the key was.
\<close>

partial_function (option) map_To_loop ::
  "'k To \<Rightarrow> 'v To \<Rightarrow> 'k \<Rightarrow> 'v \<Rightarrow> State \<Rightarrow> int \<Rightarrow> ('k, 'v) std_map
     \<Rightarrow> (bool \<times> ('k, 'v) std_map \<times> State) result option"
where
  "map_To_loop toK toV key0 value0 state index out =
     (case lua_next state index of
        Inl e \<Rightarrow> Some (Inl e)
      | Inr (r, s1) \<Rightarrow>
          if r = 0 then Some (Inr (True, out, s1))
          else
            (case toK s1 (- 2) key0 of
               None \<Rightarrow> None
             | Some (Inl e) \<Rightarrow> Some (Inl e)
             | Some (Inr (okK, key, s2)) \<Rightarrow>
                 if \<not> okK then Some (Inr (False, out, s2))
                 else
                   (case toV s2 (- 1) value0 of
                      None \<Rightarrow> None
                    | Some (Inl e) \<Rightarrow> Some (Inl e)
                    | Some (Inr (okV, val, s3)) \<Rightarrow>
                        if \<not> okV then Some (Inr (False, out, s3))
                        else map_To_loop toK toV key0 value0 (lua_pop s3 1) index
                               (AList.update key val out))))"

declare map_To_loop.simps [code]

definition Type_map_To :: "'k To \<Rightarrow> 'v To \<Rightarrow> 'k \<Rightarrow> 'v \<Rightarrow> ('k, 'v) std_map To" where
  "Type_map_To toK toV key0 value0 state index out =
     (if GetType state index \<noteq> Table then Some (Inr (False, out, state))
      else
        (let reset = StackAutoReset state in
         leave_scope reset (map_To_loop toK toV key0 value0 (lua_pushnil state) index out)))"

subsection \<open>Element types that occupy one slot\<close>

text \<open>
  The scalar and string types push one value that depends on the C++ value alone,
  \<open>enc v\<close>, and read such a slot back without changing the state, at least for the
  values \<open>v\<close> of a set \<open>A\<close>.  The two predicates state this for the element functions
  handed to the container templates.
\<close>

definition pushes_slot :: "'a Push \<Rightarrow> ('a \<Rightarrow> lua_value) \<Rightarrow> bool" where
  "pushes_slot pushT enc \<longleftrightarrow> (\<forall>s v. pushT s v = Inr (push_value s (enc v)))"

definition reads_slot :: "'a To \<Rightarrow> 'a \<Rightarrow> ('a \<Rightarrow> lua_value) \<Rightarrow> 'a set \<Rightarrow> bool" where
  "reads_slot toT value0 enc A \<longleftrightarrow>
     (\<forall>s idx. \<forall>v \<in> A.
        index2value s idx = Some (enc v) \<longrightarrow> toT s idx value0 = Some (Inr (True, v, s)))"


text \<open>
  The table that the loop of \<^verbatim>\<open>Type<std::vector<T>>::Push\<close> builds from the table \<open>t\<close>
  when it starts at position \<open>i\<close>, and the one that the loop of
  \<^verbatim>\<open>Type<std::map<K, V>>::Push\<close> builds.
\<close>

fun vector_table :: "('a \<Rightarrow> lua_value) \<Rightarrow> nat \<Rightarrow> 'a list \<Rightarrow> Table \<Rightarrow> Table" where
  "vector_table enc i [] t = t"
| "vector_table enc i (v # vs) t =
     vector_table enc (i + 1) vs (luaH_set t (LInteger (word_of_nat (i + 1))) (enc v))"

fun map_table :: "('k \<Rightarrow> lua_value) \<Rightarrow> ('v \<Rightarrow> lua_value) \<Rightarrow> ('k, 'v) std_map \<Rightarrow> Table \<Rightarrow> Table" where
  "map_table encK encV [] t = t"
| "map_table encK encV (it # rest) t =
     map_table encK encV rest (luaH_set t (encK (fst it)) (encV (snd it)))"






subsection \<open>Sequences of calls and their stack contract\<close>

text \<open>
  A call of this layer with its arguments fixed, as it acts on the state: a \<^verbatim>\<open>Push\<close> of
  a value, or a \<^verbatim>\<open>To\<close> at an index into an output, whose flag and output are dropped.
  A sequence of calls runs until one of them fails to return.
\<close>

type_synonym call = "State \<Rightarrow> State result option"

definition Push_call :: "'a Push \<Rightarrow> 'a \<Rightarrow> call" where
  "Push_call pushT v s = Some (pushT s v)"

definition To_call :: "'a To \<Rightarrow> int \<Rightarrow> 'a \<Rightarrow> call" where
  "To_call toT index out s =
     (case toT s index out of
        None \<Rightarrow> None
      | Some (Inl e) \<Rightarrow> Some (Inl e)
      | Some (Inr (ok, out', s')) \<Rightarrow> Some (Inr s'))"

fun run_calls :: "call list \<Rightarrow> call" where
  "run_calls [] s = Some (Inr s)"
| "run_calls (c # cs) s =
     (case c s of
        None \<Rightarrow> None
      | Some (Inl e) \<Rightarrow> Some (Inl e)
      | Some (Inr s') \<Rightarrow> run_calls cs s')"



subsection \<open>Concrete parameters for examples\<close>

text \<open>
  The examples are evaluated with an instance of the numeric parameters that agrees with
  the C library where the examples use it: on strings that spell no numeral
  (\<open>str2num\<close>), on floats with an integer value of fewer than 15 digits (\<open>num2str\<close>),
  on integers up to \<open>2 ^ 53\<close> (\<open>int2num\<close>) and on doubles that are floats
  (\<open>double2float\<close>).
\<close>

definition example_numerics :: numerics where
  "example_numerics =
     \<lparr>str2num = (\<lambda>s. None),
      num2str = (\<lambda>q. integer2str (word_of_int \<lfloor>q\<rfloor>) @ ''.0''),
      int2num = (\<lambda>i. of_int (sint i)),
      double2float = (\<lambda>d. d)\<rparr>"

definition empty_state :: State where
  "empty_state = \<lparr>stack = [], heap = []\<rparr>"

text \<open>A stack that holds one table, the array part \<open>{7, "x"}\<close>.\<close>

definition mixed_table_state :: State where
  "mixed_table_state =
     \<lparr>stack = [LTable 0], heap = [[(LInteger 1, LInteger 7), (LInteger 2, LString ''x'')]]\<rparr>"

text \<open>
  A sequence of calls on the empty stack: pushes of an \<^verbatim>\<open>int\<close>, a vector and a map, and
  conversions that succeed and that fail.
\<close>

definition example_calls :: "call list" where
  "example_calls =
     [Push_call Type_int_Push 7,
      Push_call (Type_vector_Push Type_int_Push) [1, 2],
      To_call (Type_vector_To (Type_int_To example_numerics) 0 example_numerics) 2 [],
      To_call (Type_int_To example_numerics) 1 0,
      Push_call (Type_map_Push Type_int_Push Type_string_Push) [(1, ''a'')],
      To_call (Type_map_To (Type_int_To example_numerics) (Type_int_To example_numerics) 0 0) 3 [],
      To_call Type_bool_To (- 1) False]"

section \<open>Properties\<close>

subsection \<open>Reading the stack\<close>

lemma index2value_push_value [simp]: "index2value (push_value s v) (- 1) = Some v"
  by (simp add: index2value_def index2addr_def push_value_def)

lemma index2addr_push_value [simp]: "index2addr (push_value s v) (- 1) = Some 0"
  by (simp add: index2addr_def push_value_def)

lemma index2addr_cons [simp]: "index2addr (s\<lparr>stack := v # st\<rparr>) (- 1) = Some 0"
  by (simp add: index2addr_def)

lemma index2value_cons [simp]: "index2value (s\<lparr>stack := v # st\<rparr>) (- 1) = Some v"
  by (simp add: index2value_def)

lemma stack_push_value [simp]: "stack (push_value s v) = v # stack s"
  by (simp add: push_value_def)

lemma heap_push_value [simp]: "heap (push_value s v) = heap s"
  by (simp add: push_value_def)

lemma lua_gettop_push_value [simp]: "lua_gettop (push_value s v) = lua_gettop s + 1"
  by (simp add: lua_gettop_def push_value_def)


subsection \<open>Words and strings\<close>

lemma ucast_scast_c_int: "ucast (scast (n :: c_int) :: lua_Integer) = n"
  by (rule bit_word_eqI) (auto simp add: bit_simps)

lemma ucast_ucast_uint32_t: "ucast (ucast (n :: uint32_t) :: lua_Integer) = n"
  by (rule bit_word_eqI) (auto simp add: bit_simps)

lemma uint_ucast_lua_Integer: "uint (ucast (w :: lua_Integer) :: uint32_t) = sint w mod 2 ^ 32"
proof -
  have "uint (ucast w :: uint32_t) = take_bit 32 (uint w)"
    by (simp add: unsigned_ucast_eq)
  also have "\<dots> = take_bit 32 (take_bit 64 (sint w))"
    by (simp add: uint_sint)
  also have "\<dots> = take_bit 32 (sint w)"
    by simp
  finally show ?thesis by (simp add: take_bit_eq_mod)
qed



lemma c_str_no_nul: "CHR 0x00 \<notin> set str \<Longrightarrow> c_str str = str"
  by (auto simp: c_str_def)


lemma floor_three_halves: "\<lfloor>3 / 2 :: rat\<rfloor> = 1"
  by code_simp

lemma ucast_minus_1: "ucast (- 1 :: lua_Integer) = (4294967295 :: uint32_t)"
  by code_simp


subsection \<open>The string coercion of the runtime\<close>




subsection \<open>Arity\<close>

text \<open>
  Claim C7.  \<^verbatim>\<open>Values<T>::count\<close> is \<open>0\<close> for \<^verbatim>\<open>void\<close>, the number of components for
  a \<^verbatim>\<open>std::tuple\<close> (also for the empty tuple), and \<open>1\<close> for every other type; it is
  never negative and depends on the type alone.
\<close>

theorem Values_count_shape:
  "Values_count T_void = 0 \<and>
   Values_count (T_tuple ArgTypes) = int (length ArgTypes) \<and>
   (T \<noteq> T_void \<and> (\<forall>ts. T \<noteq> T_tuple ts) \<longrightarrow> Values_count T = 1) \<and>
   0 \<le> Values_count T"
  by (cases T) auto

theorem Values_count_shape_witness:
  "Values_count T_void = 0 \<and>
   Values_count (T_tuple []) = 0 \<and>
   Values_count (T_tuple [T_int, T_string, T_bool]) = 3 \<and>
   Values_count (T_vector T_int) = 1 \<and>
   Values_count T_double = 1"
  using Values_count_shape [of "[]" "T_vector T_int"]
    Values_count_shape [of "[T_int, T_string, T_bool]" T_double]
  by simp

subsection \<open>Booleans are not coerced\<close>

text \<open>
  Claim C4.  \<^verbatim>\<open>Type<bool>::To\<close> returns \<open>false\<close> and leaves \<open>*out\<close> alone whenever the
  tag of the slot is not boolean, in particular on the number \<open>0\<close> and on the empty
  string; on a slot that holds the boolean \<open>false\<close> it returns \<open>true\<close> and stores
  \<open>false\<close>.
\<close>

theorem Type_bool_To_strict:
  "(lua_type s idx \<noteq> LUA_TBOOLEAN \<longrightarrow>
      Type_bool_To s idx out = Some (Inr (False, out, s))) \<and>
   (index2value s idx = Some (LInteger 0) \<longrightarrow>
      Type_bool_To s idx out = Some (Inr (False, out, s))) \<and>
   (index2value s idx = Some (LString []) \<longrightarrow>
      Type_bool_To s idx out = Some (Inr (False, out, s))) \<and>
   (index2value s idx = Some (LBoolean False) \<longrightarrow>
      Type_bool_To s idx out = Some (Inr (True, False, s)))"
  by (simp add: Type_bool_To_def lua_isboolean_def lua_type_def lua_toboolean_def LUA_T_defs)

theorem Type_bool_To_strict_witness:
  "Type_bool_To (lua_pushinteger empty_state 0) (- 1) True
     = Some (Inr (False, True, lua_pushinteger empty_state 0)) \<and>
   Type_bool_To (lua_pushlstring empty_state [] 0) (- 1) True
     = Some (Inr (False, True, lua_pushlstring empty_state [] 0)) \<and>
   Type_bool_To (lua_pushnil empty_state) 1 True
     = Some (Inr (False, True, lua_pushnil empty_state)) \<and>
   Type_bool_To (lua_pushboolean empty_state False) (- 1) True
     = Some (Inr (True, False, lua_pushboolean empty_state False))"
  using Type_bool_To_strict [of "lua_pushinteger empty_state 0" "- 1" True]
    Type_bool_To_strict [of "lua_pushlstring empty_state [] 0" "- 1" True]
    Type_bool_To_strict [of "lua_pushnil empty_state" 1 True]
    Type_bool_To_strict [of "lua_pushboolean empty_state False" "- 1" True]
  by (simp add: lua_pushinteger_def lua_pushlstring_def lua_pushnil_def lua_pushboolean_def
      lua_type_def empty_state_def push_value_def index2value_def index2addr_def LUA_T_defs)

subsection \<open>Unsigned integers wrap\<close>

text \<open>
  Claim C10.  \<^verbatim>\<open>Type<uint32_t>::To\<close> goes through an \<^verbatim>\<open>int\<close>: on a slot that holds an
  integer \<open>w\<close>, a float with the integer value \<open>z\<close> or a string that spells the integer
  \<open>w\<close>, it succeeds and \<open>*out\<close> is that value modulo \<open>2 ^ 32\<close>.  Hence \<^verbatim>\<open>Push\<close> followed by \<^verbatim>\<open>To\<close> gives back every
  \<^verbatim>\<open>uint32_t\<close>, also those above \<^verbatim>\<open>INT_MAX\<close>.
\<close>

theorem Type_uint32_t_To_wraps:
  "(index2value s idx = Some (LInteger w) \<longrightarrow>
      Type_uint32_t_To nm s idx out = Some (Inr (True, ucast w, s))) \<and>
   (index2value s idx = Some (LFloat (of_int z)) \<and> - (2 ^ 63) \<le> z \<and> z < 2 ^ 63 \<longrightarrow>
      Type_uint32_t_To nm s idx out = Some (Inr (True, word_of_int z, s))) \<and>
   (index2value s idx = Some (LString str) \<and> str2num nm str = Some (Inl w) \<longrightarrow>
      Type_uint32_t_To nm s idx out = Some (Inr (True, ucast w, s))) \<and>
   uint (ucast w :: uint32_t) = sint w mod 2 ^ 32 \<and>
   uint (word_of_int z :: uint32_t) = z mod 2 ^ 32 \<and>
   (\<exists>s'. Type_uint32_t_Push s0 n = Inr s' \<and>
         Type_uint32_t_To nm s' (- 1) out = Some (Inr (True, n, s')))"
proof -
  have e: "index2value s idx = Some (LString str) \<and> str2num nm str = Some (Inl w) \<longrightarrow>
      Type_uint32_t_To nm s idx out = Some (Inr (True, ucast w, s))"
    by (simp add: Type_uint32_t_To_def lua_tointegerx_def tointeger_def)
  have a: "index2value s idx = Some (LInteger w) \<longrightarrow>
      Type_uint32_t_To nm s idx out = Some (Inr (True, ucast w, s))"
    by (simp add: Type_uint32_t_To_def lua_tointegerx_def tointeger_def)
  have "ucast (word_of_int z :: lua_Integer) = (word_of_int z :: uint32_t)"
    by (rule bit_word_eqI) (auto simp add: bit_simps)
  then have b: "index2value s idx = Some (LFloat (of_int z)) \<and> - (2 ^ 63) \<le> z \<and> z < 2 ^ 63 \<longrightarrow>
      Type_uint32_t_To nm s idx out = Some (Inr (True, word_of_int z, s))"
    by (simp add: Type_uint32_t_To_def lua_tointegerx_def tointeger_def flt2integer_def)
  have c: "uint (word_of_int z :: uint32_t) = z mod 2 ^ 32"
    by (simp add: uint_word_of_int)
  have d: "\<exists>s'. Type_uint32_t_Push s0 n = Inr s' \<and>
         Type_uint32_t_To nm s' (- 1) out = Some (Inr (True, n, s'))"
    by (simp add: Type_uint32_t_Push_def Type_uint32_t_To_def lua_pushinteger_def
        lua_tointegerx_def tointeger_def ucast_ucast_uint32_t)
  from a b c d e uint_ucast_lua_Integer [of w] show ?thesis by blast
qed

theorem Type_uint32_t_To_wraps_witness:
  "Type_uint32_t_To example_numerics (lua_pushinteger empty_state (- 1)) (- 1) 0
     = Some (Inr (True, 4294967295, lua_pushinteger empty_state (- 1))) \<and>
   Type_uint32_t_To example_numerics (lua_pushnumber empty_state 4294967298) (- 1) 0
     = Some (Inr (True, 2, lua_pushnumber empty_state 4294967298)) \<and>
   (\<exists>s'. Type_uint32_t_Push empty_state 4000000000 = Inr s' \<and>
         Type_uint32_t_To example_numerics s' (- 1) 0 = Some (Inr (True, 4000000000, s')))"
  using Type_uint32_t_To_wraps [where s = "lua_pushinteger empty_state (- 1)" and idx = "- 1"
      and w = "- 1" and nm = example_numerics and out = 0 and z = 0 and ?s0.0 = empty_state
      and n = 4000000000 and str = "[]"]
    Type_uint32_t_To_wraps [where s = "lua_pushnumber empty_state 4294967298" and idx = "- 1"
      and w = 0 and nm = example_numerics and out = 0 and z = 4294967298 and ?s0.0 = empty_state
      and n = 0 and str = "[]"]
  by (simp add: lua_pushinteger_def lua_pushnumber_def ucast_minus_1)

subsection \<open>Strings inherit the coercion of the runtime\<close>



subsection \<open>Round trip of scalars\<close>

text \<open>
  The conversions of \<^verbatim>\<open>int\<close>, \<^verbatim>\<open>bool\<close>, \<^verbatim>\<open>float\<close> and of strings without a zero
  byte give back the pushed value; so does \<^verbatim>\<open>double\<close> on the integers that fit an
  \<^verbatim>\<open>int\<close>.  A string with a zero byte is pushed whole and read back up to that byte.
\<close>

lemma Type_int_round_trip:
  "Type_int_Push s n = Inr (push_value s (LInteger (scast n))) \<and>
   Type_int_To nm (push_value s (LInteger (scast n))) (- 1) out
     = Some (Inr (True, n, push_value s (LInteger (scast n))))"
  by (simp add: Type_int_Push_def Type_int_To_def lua_pushinteger_def lua_tointegerx_def
      tointeger_def ucast_scast_c_int)

lemma Type_bool_round_trip:
  "Type_bool_Push s b = Inr (push_value s (LBoolean b)) \<and>
   Type_bool_To (push_value s (LBoolean b)) (- 1) out
     = Some (Inr (True, b, push_value s (LBoolean b)))"
  by (simp add: Type_bool_Push_def Type_bool_To_def lua_pushboolean_def lua_isboolean_def
      lua_type_def lua_toboolean_def LUA_T_defs)

lemma Type_float_round_trip:
  "double2float nm f = f \<Longrightarrow>
   Type_float_Push s f = Inr (push_value s (LFloat f)) \<and>
   Type_float_To nm (push_value s (LFloat f)) (- 1) out
     = Some (Inr (True, f, push_value s (LFloat f)))"
  by (simp add: Type_float_Push_def Type_float_To_def lua_pushnumber_def lua_tonumberx_def
      tonumber_def)

lemma Type_string_round_trip:
  "CHR 0x00 \<notin> set str \<Longrightarrow>
   Type_string_Push s str = Inr (push_value s (LString str)) \<and>
   Type_string_To nm (push_value s (LString str)) (- 1) out
     = Some (Inr (True, str, push_value s (LString str)))"
  by (simp add: Type_string_Push_def Type_string_To_def lua_pushlstring_def lua_tostring_def
      lua_tolstring_def c_str_no_nul)

lemma Type_string_embedded_nul:
  "Type_string_Push s [CHR ''a'', CHR 0x00, CHR ''b'']
     = Inr (push_value s (LString [CHR ''a'', CHR 0x00, CHR ''b''])) \<and>
   Type_string_To nm (push_value s (LString [CHR ''a'', CHR 0x00, CHR ''b''])) (- 1) out
     = Some (Inr (True, ''a'', push_value s (LString [CHR ''a'', CHR 0x00, CHR ''b''])))"
  by (simp add: Type_string_Push_def Type_string_To_def lua_pushlstring_def lua_tostring_def
      lua_tolstring_def c_str_def)

lemma double_to_int_of_int:
  "- (2 ^ 31) \<le> z \<Longrightarrow> z < 2 ^ 31 \<Longrightarrow> double_to_int (of_int z) = Some (word_of_int z)"
  by (simp add: double_to_int_def)

lemma Type_double_round_trip_integral:
  assumes "- (2 ^ 31) \<le> z" "z < 2 ^ 31"
  shows "Type_double_Push s (of_int z) = Inr (push_value s (LFloat (of_int z))) \<and>
   Type_double_To nm (push_value s (LFloat (of_int z))) (- 1) out
     = Some (Inr (True, of_int z, push_value s (LFloat (of_int z))))"
proof -
  have "sint (word_of_int z :: c_int) = z"
    using assms by (simp add: sint_sbintrunc' signed_take_bit_int_eq_self)
  with assms show ?thesis
    by (simp add: Type_double_Push_def Type_double_To_def lua_pushnumber_def lua_tonumberx_def
        tonumber_def double_to_int_of_int int_to_double_def)
qed

text \<open>
  Claim C1.  The round trip law asks that \<^verbatim>\<open>To\<close> on the slot pushed by \<^verbatim>\<open>Push\<close>
  succeeds with the pushed value, for \<^verbatim>\<open>double\<close> also at \<open>1.5\<close>.  The code of
  \<^verbatim>\<open>Type<double>::To\<close> keeps the number in an \<^verbatim>\<open>int\<close>: after pushing \<open>1.5\<close> it
  succeeds and stores \<open>1\<close>.
\<close>

theorem Type_double_To_truncates:
  "Type_double_Push s (3 / 2) = Inr (push_value s (LFloat (3 / 2))) \<and>
   Type_double_To nm (push_value s (LFloat (3 / 2))) (- 1) out
     = Some (Inr (True, 1, push_value s (LFloat (3 / 2))))"
  by (simp add: Type_double_Push_def Type_double_To_def lua_pushnumber_def lua_tonumberx_def
      tonumber_def double_to_int_def int_to_double_def floor_three_halves)

theorem Type_double_To_truncates_witness:
  "Type_double_Push empty_state (3 / 2) = Inr (push_value empty_state (LFloat (3 / 2))) \<and>
   Type_double_To example_numerics (push_value empty_state (LFloat (3 / 2))) (- 1) 0
     = Some (Inr (True, 1, push_value empty_state (LFloat (3 / 2)))) \<and>
   (1 :: c_double) \<noteq> 3 / 2"
  using Type_double_To_truncates [of empty_state example_numerics 0]
  by simp

subsection \<open>The table built by a Push\<close>

lemma index2value_absolute:
  "0 < idx \<Longrightarrow> idx \<le> int (length (stack s)) \<Longrightarrow>
     index2value s idx = Some (stack s ! nat (int (length (stack s)) - idx))"
  by (simp add: index2value_def index2addr_def)

lemma RawSet_slots:
  assumes K: "pushes_slot pushK encK" and V: "pushes_slot pushV encV"
    and st: "stack s = LTable a # st" and a: "a < length (heap s)" and k: "encK k \<noteq> LNil"
  shows "RawSet pushK pushV s (- 1) k v
     = Inr (s\<lparr>heap := (heap s)[a := luaH_set (heap s ! a) (encK k) (encV v)]\<rparr>)"
proof -
  let ?s2 = "push_value (push_value s (encK k)) (encV v)"
  have idx: "lua_absindex s (- 1) = int (length (stack s))"
    by (simp add: lua_absindex_def lua_gettop_def)
  have "index2value ?s2 (int (length (stack s))) = Some (LTable a)"
    using st by (simp add: index2value_absolute)
  then have "lua_rawset ?s2 (int (length (stack s)))
     = Inr (?s2\<lparr>stack := stack s, heap := (heap s)[a := luaH_set (heap s ! a) (encK k) (encV v)]\<rparr>)"
    using a k by (simp add: lua_rawset_def)
  moreover have "?s2\<lparr>stack := stack s, heap := (heap s)[a := luaH_set (heap s ! a) (encK k) (encV v)]\<rparr>
     = s\<lparr>heap := (heap s)[a := luaH_set (heap s ! a) (encK k) (encV v)]\<rparr>"
    by (simp add: push_value_def)
  ultimately show ?thesis
    using K V by (simp add: RawSet_def pushes_slot_def idx)
qed

lemma pushes_slot_size_t: "pushes_slot Push_size_t (\<lambda>n. LInteger (word_of_nat n))"
  by (simp add: pushes_slot_def Push_size_t_def lua_pushinteger_def)

lemma vector_Push_loop_slots:
  assumes T: "pushes_slot pushT enc"
  shows "stack s = LTable a # st \<Longrightarrow> a < length (heap s) \<Longrightarrow>
     vector_Push_loop pushT s i vs
       = Inr (s\<lparr>heap := (heap s)[a := vector_table enc i vs (heap s ! a)]\<rparr>)"
proof (induction vs arbitrary: s i)
  case Nil
  then show ?case by simp
next
  case (Cons v vs)
  let ?s1 = "s\<lparr>heap := (heap s)[a := luaH_set (heap s ! a) (LInteger (word_of_nat (i + 1))) (enc v)]\<rparr>"
  have step: "RawSet Push_size_t pushT s (- 1) (i + 1) v = Inr ?s1"
    using RawSet_slots [OF pushes_slot_size_t T Cons.prems(1) Cons.prems(2)] by simp
  have "stack ?s1 = LTable a # st" "a < length (heap ?s1)"
    using Cons.prems by simp_all
  from Cons.IH [OF this, of "i + 1"] step Cons.prems(2) show ?case
    by simp
qed

lemma map_Push_loop_slots:
  assumes K: "pushes_slot pushK encK" and V: "pushes_slot pushV encV"
  shows "stack s = LTable a # st \<Longrightarrow> a < length (heap s) \<Longrightarrow>
     \<forall>k \<in> fst ` set dict. encK k \<noteq> LNil \<Longrightarrow>
     map_Push_loop pushK pushV s dict
       = Inr (s\<lparr>heap := (heap s)[a := map_table encK encV dict (heap s ! a)]\<rparr>)"
proof (induction dict arbitrary: s)
  case Nil
  then show ?case by simp
next
  case (Cons it rest)
  let ?s1 = "s\<lparr>heap := (heap s)[a := luaH_set (heap s ! a) (encK (fst it)) (encV (snd it))]\<rparr>"
  have "encK (fst it) \<noteq> LNil" using Cons.prems(3) by simp
  then have step: "RawSet pushK pushV s (- 1) (fst it) (snd it) = Inr ?s1"
    using RawSet_slots [OF K V Cons.prems(1) Cons.prems(2)] by simp
  have "stack ?s1 = LTable a # st" "a < length (heap ?s1)" "\<forall>k \<in> fst ` set rest. encK k \<noteq> LNil"
    using Cons.prems by simp_all
  from Cons.IH [OF this] step Cons.prems(2) show ?case
    by simp
qed

lemma Type_vector_Push_slots:
  assumes "pushes_slot pushT enc"
  shows "Type_vector_Push pushT s vec
     = Inr (s\<lparr>stack := LTable (length (heap s)) # stack s,
              heap := heap s @ [vector_table enc 0 vec []]\<rparr>)"
proof -
  let ?s0 = "NewTable s (length vec) 0"
  have 0: "stack ?s0 = LTable (length (heap s)) # stack s" "length (heap s) < length (heap ?s0)"
    "heap ?s0 = heap s @ [[]]"
    by (simp_all add: NewTable_def lua_createtable_def)
  from vector_Push_loop_slots [OF assms 0(1) 0(2), of 0 vec] 0(3) show ?thesis
    by (simp add: Type_vector_Push_def NewTable_def lua_createtable_def)
qed

lemma Type_map_Push_slots:
  assumes "pushes_slot pushK encK" "pushes_slot pushV encV" "\<forall>k \<in> fst ` set dict. encK k \<noteq> LNil"
  shows "Type_map_Push pushK pushV s dict
     = Inr (s\<lparr>stack := LTable (length (heap s)) # stack s,
              heap := heap s @ [map_table encK encV dict []]\<rparr>)"
proof -
  let ?s0 = "NewTable s 0 (length dict)"
  have 0: "stack ?s0 = LTable (length (heap s)) # stack s" "length (heap s) < length (heap ?s0)"
    "heap ?s0 = heap s @ [[]]"
    by (simp_all add: NewTable_def lua_createtable_def)
  from map_Push_loop_slots [OF assms(1,2) 0(1) 0(2) assms(3)] 0(3) show ?thesis
    by (simp add: Type_map_Push_def NewTable_def lua_createtable_def)
qed

subsection \<open>Element types of one slot\<close>

lemma reads_slot_subset: "reads_slot toT value0 enc A \<Longrightarrow> B \<subseteq> A \<Longrightarrow> reads_slot toT value0 enc B"
  by (auto simp: reads_slot_def)

lemma int_pushes_slot: "pushes_slot Type_int_Push (\<lambda>n. LInteger (scast n))"
  by (simp add: pushes_slot_def Type_int_Push_def lua_pushinteger_def)

lemma int_reads_slot: "reads_slot (Type_int_To nm) value0 (\<lambda>n. LInteger (scast n)) A"
  by (simp add: reads_slot_def Type_int_To_def lua_tointegerx_def tointeger_def ucast_scast_c_int)

lemma uint32_t_pushes_slot: "pushes_slot Type_uint32_t_Push (\<lambda>n. LInteger (ucast n))"
  by (simp add: pushes_slot_def Type_uint32_t_Push_def lua_pushinteger_def)

lemma uint32_t_reads_slot: "reads_slot (Type_uint32_t_To nm) value0 (\<lambda>n. LInteger (ucast n)) A"
  by (simp add: reads_slot_def Type_uint32_t_To_def lua_tointegerx_def tointeger_def
      ucast_ucast_uint32_t)

lemma bool_pushes_slot: "pushes_slot Type_bool_Push LBoolean"
  by (simp add: pushes_slot_def Type_bool_Push_def lua_pushboolean_def)

lemma bool_reads_slot: "reads_slot Type_bool_To value0 LBoolean A"
  by (simp add: reads_slot_def Type_bool_To_def lua_isboolean_def lua_type_def lua_toboolean_def
      LUA_T_defs)


lemma string_reads_slot:
  "\<forall>str \<in> A. CHR 0x00 \<notin> set str \<Longrightarrow> reads_slot (Type_string_To nm) value0 LString A"
  by (simp add: reads_slot_def Type_string_To_def lua_tostring_def lua_tolstring_def
      index2value_def c_str_no_nul split: option.splits)

subsection \<open>Reading a table as a vector\<close>

text \<open>
  With the relative index \<open>-1\<close> the loop starts \<^verbatim>\<open>lua_next\<close> on the \<open>nil\<close> pushed as the
  first key.  With the absolute index of a table whose first key is \<open>1\<close> the loop
  compares \<open>1\<close> with \<open>size - 1\<close> of the empty output and returns \<open>false\<close>; the guard then
  restores the stack.
\<close>

lemma index2value_second [simp]: "index2value (s\<lparr>stack := x # y # st\<rparr>) (- 2) = Some y"
  by (simp add: index2value_def index2addr_def)

lemma Type_vector_To_top_relative:
  assumes "index2value s (- 1) = Some (LTable a)"
  shows "Type_vector_To toT value0 nm s (- 1) out = Some (Inl UndefinedBehaviour)"
proof -
  have "lua_next (lua_pushnil s) (- 1) = Inl UndefinedBehaviour"
    by (simp add: lua_next_def lua_pushnil_def)
  then have "vector_To_loop toT value0 nm (lua_pushnil s) (- 1) out = Some (Inl UndefinedBehaviour)"
    by (subst vector_To_loop.simps) simp
  with assms show ?thesis
    by (simp add: Type_vector_To_def GetType_def lua_type_def to_LuaType_def LUA_T_defs
        leave_scope_def)
qed

lemma Type_map_To_top_relative:
  assumes "index2value s (- 1) = Some (LTable a)"
  shows "Type_map_To toK toV key0 value0 s (- 1) out = Some (Inl UndefinedBehaviour)"
proof -
  have "lua_next (lua_pushnil s) (- 1) = Inl UndefinedBehaviour"
    by (simp add: lua_next_def lua_pushnil_def)
  then have "map_To_loop toK toV key0 value0 (lua_pushnil s) (- 1) out = Some (Inl UndefinedBehaviour)"
    by (subst map_To_loop.simps) simp
  with assms show ?thesis
    by (simp add: Type_map_To_def GetType_def lua_type_def to_LuaType_def LUA_T_defs
        leave_scope_def)
qed

lemma luaH_set_head:
  "x \<noteq> LNil \<Longrightarrow> \<exists>e' rest'. luaH_set ((k0, e0) # rest0) k x = (k0, e') # rest'"
  by (simp add: luaH_set_def)

lemma vector_table_head:
  "\<forall>x \<in> set vs. enc x \<noteq> LNil \<Longrightarrow>
     \<exists>e' rest'. vector_table enc i vs ((k0, e0) # rest0) = (k0, e') # rest'"
proof (induction vs arbitrary: i e0 rest0)
  case Nil
  then show ?case by simp
next
  case (Cons v vs)
  from Cons.prems have "enc v \<noteq> LNil" by simp
  from luaH_set_head [OF this] obtain e1 rest1 where
    1: "luaH_set ((k0, e0) # rest0) (LInteger (word_of_nat (i + 1))) (enc v) = (k0, e1) # rest1"
    by blast
  from Cons.prems have "\<forall>x \<in> set vs. enc x \<noteq> LNil" by simp
  from Cons.IH [OF this, of "i + 1" e1 rest1] 1 show ?case by simp
qed

lemma vector_table_first:
  assumes "vec \<noteq> []" "\<forall>x \<in> set vec. enc x \<noteq> LNil"
  shows "\<exists>e rest. vector_table enc 0 vec [] = (LInteger 1, e) # rest"
proof -
  from assms(1) obtain v vs where vec: "vec = v # vs" by (cases vec) auto
  with assms(2) have v: "enc v \<noteq> LNil" and vs: "\<forall>x \<in> set vs. enc x \<noteq> LNil" by simp_all
  from v have "luaH_set [] (LInteger (word_of_nat (0 + 1))) (enc v) = [(LInteger 1, enc v)]"
    by (simp add: luaH_set_def key_norm_def)
  with vector_table_head [OF vs, of 1 "LInteger 1" "enc v" "[]"] vec show ?thesis
    by simp
qed

lemma size_minus_1_Nil: "size_minus_1 [] \<noteq> 1"
  by (simp add: size_minus_1_def)

lemma Type_vector_To_first_key_1:
  assumes st: "stack s = LTable a # st" and a: "a < length (heap s)"
    and t: "heap s ! a = (LInteger 1, e) # rest"
  shows "Type_vector_To toT value0 nm s (lua_gettop s) [] = Some (Inr (False, [], s))"
proof -
  let ?idx = "int (length (stack s))"
  have idx: "0 < ?idx" using st by simp
  have ty: "GetType s ?idx = Table"
    using st by (simp add: GetType_def lua_type_def index2value_absolute to_LuaType_def LUA_T_defs)
  let ?s1 = "s\<lparr>stack := e # LInteger 1 # stack s\<rparr>"
  have "index2value (lua_pushnil s) ?idx = Some (LTable a)"
    using st by (simp add: index2value_absolute lua_pushnil_def)
  then have nx: "lua_next (lua_pushnil s) ?idx = Inr (1, ?s1)"
    using a t by (simp add: lua_next_def luaH_next_def lua_pushnil_def push_value_def)
  have chk: "GetType ?s1 (- 2) = Number" "lua_tointeger nm ?s1 (- 2) = 1"
    by (simp_all add: GetType_def lua_type_def to_LuaType_def LUA_T_defs lua_tointeger_def
        lua_tointegerx_def tointeger_def)
  have "vector_To_loop toT value0 nm (lua_pushnil s) ?idx [] = Some (Inr (False, [], ?s1))"
    by (subst vector_To_loop.simps) (simp add: nx chk size_minus_1_Nil [symmetric])
  moreover have "StackAutoReset_release (StackAutoReset s) ?s1 = s"
    by (simp add: StackAutoReset_release_def StackAutoReset_def lua_settop_def lua_gettop_def)
  ultimately show ?thesis
    using ty by (simp add: Type_vector_To_def leave_scope_def lua_gettop_def)
qed

lemma Type_vector_To_empty_table:
  assumes st: "stack s = LTable a # st" and a: "a < length (heap s)" and t: "heap s ! a = []"
  shows "Type_vector_To toT value0 nm s (lua_gettop s) out = Some (Inr (True, out, s))"
proof -
  let ?idx = "int (length (stack s))"
  have ty: "GetType s ?idx = Table"
    using st by (simp add: GetType_def lua_type_def index2value_absolute to_LuaType_def LUA_T_defs)
  have "index2value (lua_pushnil s) ?idx = Some (LTable a)"
    using st by (simp add: index2value_absolute lua_pushnil_def)
  then have nx: "lua_next (lua_pushnil s) ?idx = Inr (0, s)"
    using a t by (simp add: lua_next_def luaH_next_def lua_pushnil_def push_value_def)
  have "vector_To_loop toT value0 nm (lua_pushnil s) ?idx out = Some (Inr (True, out, s))"
    by (subst vector_To_loop.simps) (simp add: nx)
  moreover have "StackAutoReset_release (StackAutoReset s) s = s"
    by (simp add: StackAutoReset_release_def StackAutoReset_def lua_settop_def lua_gettop_def)
  ultimately show ?thesis
    using ty by (simp add: Type_vector_To_def leave_scope_def lua_gettop_def)
qed

lemma int_vector_7:
  "Type_vector_Push Type_int_Push empty_state [7]
     = Inr \<lparr>stack = [LTable 0], heap = [[(LInteger 1, LInteger 7)]]\<rparr>"
  by code_simp

text \<open>
  Claim C2.  A vector pushed with \<^verbatim>\<open>Type<std::vector<T>>::Push\<close> and read back with
  \<^verbatim>\<open>To\<close> into an empty vector should come back unchanged, for \<open>0\<close>, \<open>1\<close> and \<open>10\<close>
  elements.  The code does this for the empty vector only: for every vector of an
  element type that pushes one non-nil slot, and for every element conversion, \<^verbatim>\<open>To\<close> at
  the absolute index of the pushed table returns the flag \<open>vec = []\<close> and an empty
  output, and \<^verbatim>\<open>To\<close> at the relative index \<open>-1\<close> does not return.
\<close>

theorem vector_roundtrip_fails:
  assumes "pushes_slot pushT enc" and "\<forall>x \<in> set vec. enc x \<noteq> LNil"
  shows "\<exists>s1. Type_vector_Push pushT s vec = Inr s1 \<and>
     Type_vector_To toT value0 nm s1 (lua_gettop s1) [] = Some (Inr (vec = [], [], s1)) \<and>
     Type_vector_To toT value0 nm s1 (- 1) [] = Some (Inl UndefinedBehaviour)"
proof -
  let ?a = "length (heap s)"
  let ?s1 = "s\<lparr>stack := LTable ?a # stack s, heap := heap s @ [vector_table enc 0 vec []]\<rparr>"
  have push: "Type_vector_Push pushT s vec = Inr ?s1"
    by (rule Type_vector_Push_slots [OF assms(1)])
  have st: "stack ?s1 = LTable ?a # stack s" and a: "?a < length (heap ?s1)"
    and t: "heap ?s1 ! ?a = vector_table enc 0 vec []"
    by simp_all
  have rel: "Type_vector_To toT value0 nm ?s1 (- 1) [] = Some (Inl UndefinedBehaviour)"
    by (rule Type_vector_To_top_relative [of _ ?a]) (simp add: index2value_def index2addr_def)
  have "Type_vector_To toT value0 nm ?s1 (lua_gettop ?s1) [] = Some (Inr (vec = [], [], ?s1))"
  proof (cases "vec = []")
    case True
    with t have "heap ?s1 ! ?a = []" by simp
    from Type_vector_To_empty_table [OF st a this] True show ?thesis by simp
  next
    case False
    from vector_table_first [OF False assms(2)] t obtain e rest
      where "heap ?s1 ! ?a = (LInteger 1, e) # rest" by auto
    from Type_vector_To_first_key_1 [OF st a this] False show ?thesis by simp
  qed
  with push rel show ?thesis by blast
qed

theorem vector_roundtrip_fails_witness:
  "Type_vector_Push Type_int_Push empty_state [7]
     = Inr \<lparr>stack = [LTable 0], heap = [[(LInteger 1, LInteger 7)]]\<rparr> \<and>
   Type_vector_To (Type_int_To example_numerics) 0 example_numerics
       \<lparr>stack = [LTable 0], heap = [[(LInteger 1, LInteger 7)]]\<rparr> 1 []
     = Some (Inr (False, [], \<lparr>stack = [LTable 0], heap = [[(LInteger 1, LInteger 7)]]\<rparr>)) \<and>
   Type_vector_To (Type_int_To example_numerics) 0 example_numerics
       \<lparr>stack = [LTable 0], heap = [[(LInteger 1, LInteger 7)]]\<rparr> (- 1) []
     = Some (Inl UndefinedBehaviour)"
proof -
  have "\<forall>x \<in> set [7 :: c_int]. LInteger (scast x) \<noteq> LNil" by simp
  from vector_roundtrip_fails [OF int_pushes_slot this, of empty_state
      "Type_int_To example_numerics" 0 example_numerics]
  show ?thesis by (simp add: int_vector_7 lua_gettop_def)
qed

subsection \<open>Tables that are not arrays\<close>

text \<open>
  Claim C5.  \<^verbatim>\<open>Type<std::vector<T>>::To\<close> should return \<open>false\<close> on every table whose
  keys are not \<open>1..n\<close>.  Because the expected key is \<open>size - 1\<close>, the table with the
  single key \<open>-1\<close> is accepted: read into an empty vector of \<^verbatim>\<open>int\<close> it returns \<open>true\<close>
  with one element.  The table with the keys \<open>1\<close> and \<open>3\<close> and the table with the keys
  \<open>1\<close> and \<open>"x"\<close> are rejected.
\<close>

theorem vector_To_accepts_non_array:
  "Type_vector_To (Type_int_To example_numerics) 0 example_numerics
       \<lparr>stack = [LTable 0], heap = [[(LInteger (- 1), LInteger 5)]]\<rparr> 1 []
     = Some (Inr (True, [5], \<lparr>stack = [LTable 0], heap = [[(LInteger (- 1), LInteger 5)]]\<rparr>)) \<and>
   Type_vector_To (Type_int_To example_numerics) 0 example_numerics
       \<lparr>stack = [LTable 0], heap = [[(LInteger 1, LInteger 5), (LInteger 3, LInteger 6)]]\<rparr> 1 []
     = Some (Inr (False, [],
         \<lparr>stack = [LTable 0], heap = [[(LInteger 1, LInteger 5), (LInteger 3, LInteger 6)]]\<rparr>)) \<and>
   Type_vector_To (Type_int_To example_numerics) 0 example_numerics
       \<lparr>stack = [LTable 0], heap = [[(LInteger 1, LInteger 5), (LString ''x'', LInteger 6)]]\<rparr> 1 []
     = Some (Inr (False, [],
         \<lparr>stack = [LTable 0], heap = [[(LInteger 1, LInteger 5), (LString ''x'', LInteger 6)]]\<rparr>))"
  by code_simp

theorem vector_To_accepts_non_array_witness:
  "\<exists>s'. Type_vector_To (Type_int_To example_numerics) 0 example_numerics
       \<lparr>stack = [LTable 0], heap = [[(LInteger (- 1), LInteger 5)]]\<rparr> 1 []
     = Some (Inr (True, [5], s'))"
  using vector_To_accepts_non_array by simp

subsection \<open>Traversing a table at an absolute index\<close>

text \<open>
  At an absolute index the loop of \<^verbatim>\<open>Type<std::map<K, V>>::To\<close> visits the entries of
  the table in their order, whatever that order is, and assigns each converted pair.
\<close>

lemma index2value_below:
  assumes "0 < idx" "idx \<le> int (length st)"
  shows "index2value (s\<lparr>stack := pre @ st\<rparr>) idx = Some (st ! nat (int (length st) - idx))"
proof -
  have "nat (int (length pre) + int (length st) - idx) = length pre + nat (int (length st) - idx)"
    using assms by linarith
  with assms show ?thesis
    by (simp add: index2value_def index2addr_def nth_append)
qed

lemma index2value_below1:
  "0 < idx \<Longrightarrow> idx \<le> int (length st) \<Longrightarrow>
     index2value (s\<lparr>stack := x # st\<rparr>) idx = Some (st ! nat (int (length st) - idx))"
  using index2value_below [where pre = "[x]"] by simp

lemma update_new_key:
  "k \<notin> fst ` set al \<Longrightarrow> AList.update k v al = al @ [(k, v)]"
  by (induction al) auto

lemma map_table_append:
  "distinct (map fst t @ map encK (map fst dict)) \<Longrightarrow>
   \<forall>k \<in> fst ` set dict. key_norm (encK k) = encK k \<Longrightarrow>
   \<forall>v \<in> snd ` set dict. encV v \<noteq> LNil \<Longrightarrow>
   map_table encK encV dict t = t @ map (\<lambda>(k, v). (encK k, encV v)) dict"
proof (induction dict arbitrary: t)
  case Nil
  then show ?case by simp
next
  case (Cons it rest)
  obtain k v where it: "it = (k, v)" by (cases it)
  from Cons.prems it have new: "encK k \<notin> fst ` set t" and norm: "key_norm (encK k) = encK k"
    and v: "encV v \<noteq> LNil"
    by auto
  then have 1: "luaH_set t (encK k) (encV v) = t @ [(encK k, encV v)]"
    by (simp add: luaH_set_def update_new_key)
  have "distinct (map fst (t @ [(encK k, encV v)]) @ map encK (map fst rest))"
    using Cons.prems(1) it by auto
  moreover have "\<forall>k \<in> fst ` set rest. key_norm (encK k) = encK k"
    "\<forall>v \<in> snd ` set rest. encV v \<noteq> LNil"
    using Cons.prems(2,3) by auto
  ultimately have "map_table encK encV rest (t @ [(encK k, encV v)])
     = (t @ [(encK k, encV v)]) @ map (\<lambda>(k, v). (encK k, encV v)) rest"
    by (rule Cons.IH)
  with 1 it show ?case by simp
qed

lemma luaH_next_after:
  assumes dist: "distinct (map fst (pre @ post))" and nonnil: "LNil \<notin> fst ` set pre"
    and cur: "(pre = [] \<and> cur = LNil) \<or> (pre \<noteq> [] \<and> cur = fst (last pre))"
  shows "luaH_next (pre @ post) cur = Inr (case post of [] \<Rightarrow> None | e # _ \<Rightarrow> Some e)"
proof (cases "pre = []")
  case True
  with cur show ?thesis by (simp add: luaH_next_def split: list.splits)
next
  case False
  with cur have c: "cur = fst (last pre)" by simp
  from False obtain pre0 x where pre: "pre = pre0 @ [(cur, x)]"
    using c by (cases pre rule: rev_cases) auto
  with nonnil have "cur \<noteq> LNil" by auto
  moreover from dist pre have "\<forall>e \<in> set pre0. fst e \<noteq> cur" by auto
  then have "dropWhile (\<lambda>e. fst e \<noteq> cur) (pre @ post) = (cur, x) # post"
    by (simp add: pre dropWhile_append3)
  ultimately show ?thesis by (simp add: luaH_next_def)
qed

lemma lua_next_absolute:
  assumes idx: "0 < idx" "idx \<le> int (length st)" "st ! nat (int (length st) - idx) = LTable a"
    and a: "a < length (heap s)"
    and t: "heap s ! a = pre @ post"
    and dist: "distinct (map fst (pre @ post))" and nonnil: "LNil \<notin> fst ` set pre"
    and cur: "(pre = [] \<and> cur = LNil) \<or> (pre \<noteq> [] \<and> cur = fst (last pre))"
  shows "lua_next (s\<lparr>stack := cur # st\<rparr>) idx
     = Inr (case post of [] \<Rightarrow> (0, s\<lparr>stack := st\<rparr>)
            | (k, v) # _ \<Rightarrow> (1, s\<lparr>stack := v # k # st\<rparr>))"
proof -
  have "index2value (s\<lparr>stack := cur # st\<rparr>) idx = Some (LTable a)"
    using idx by (simp add: index2value_below1)
  with a t luaH_next_after [OF dist nonnil cur] show ?thesis
    by (simp add: lua_next_def split: list.splits)
qed

lemma map_To_loop_traverse:
  assumes K: "reads_slot toK key0 encK A" and V: "reads_slot toV value0 encV B"
    and idx: "0 < idx" "idx \<le> int (length st)" "st ! nat (int (length st) - idx) = LTable a"
    and a: "a < length (heap s)"
    and dist: "distinct (map fst (heap s ! a))" and nonnil: "LNil \<notin> fst ` set (heap s ! a)"
  shows "heap s ! a = pre @ map (\<lambda>(k, v). (encK k, encV v)) kvs \<Longrightarrow>
     fst ` set kvs \<subseteq> A \<Longrightarrow> snd ` set kvs \<subseteq> B \<Longrightarrow>
     (pre = [] \<and> cur = LNil) \<or> (pre \<noteq> [] \<and> cur = fst (last pre)) \<Longrightarrow>
     map_To_loop toK toV key0 value0 (s\<lparr>stack := cur # st\<rparr>) idx out
       = Some (Inr (True, fold (\<lambda>(k, v). AList.update k v) kvs out, s\<lparr>stack := st\<rparr>))"
proof (induction kvs arbitrary: pre cur out)
  case Nil
  then have t: "heap s ! a = pre @ []" by simp
  have d: "distinct (map fst (pre @ []))" and n: "LNil \<notin> fst ` set pre"
    using dist nonnil t by auto
  from lua_next_absolute [OF idx a t d n Nil.prems(4)]
  show ?case by (subst map_To_loop.simps) simp
next
  case (Cons kv kvs)
  obtain k v where kv: "kv = (k, v)" by (cases kv)
  let ?post = "(encK k, encV v) # map (\<lambda>(k, v). (encK k, encV v)) kvs"
  let ?s1 = "s\<lparr>stack := encV v # encK k # st\<rparr>"
  from Cons.prems(1) kv have t: "heap s ! a = pre @ ?post" by simp
  have d: "distinct (map fst (pre @ ?post))" and n: "LNil \<notin> fst ` set pre"
    using dist nonnil t by auto
  from Cons.prems(2,3) kv have kA: "k \<in> A" and vB: "v \<in> B"
    and rest: "fst ` set kvs \<subseteq> A" "snd ` set kvs \<subseteq> B"
    by auto
  from lua_next_absolute [OF idx a t d n Cons.prems(4)]
  have nx: "lua_next (s\<lparr>stack := cur # st\<rparr>) idx = Inr (1, ?s1)" by simp
  from K kA have tk: "toK ?s1 (- 2) key0 = Some (Inr (True, k, ?s1))"
    by (simp add: reads_slot_def)
  from V vB have tv: "toV ?s1 (- 1) value0 = Some (Inr (True, v, ?s1))"
    by (simp add: reads_slot_def)
  have pop: "lua_pop ?s1 1 = s\<lparr>stack := encK k # st\<rparr>"
    by (simp add: lua_pop_def)
  have t': "heap s ! a = (pre @ [(encK k, encV v)]) @ map (\<lambda>(k, v). (encK k, encV v)) kvs"
    using t by simp
  have c': "(pre @ [(encK k, encV v)] = [] \<and> encK k = LNil) \<or>
      (pre @ [(encK k, encV v)] \<noteq> [] \<and> encK k = fst (last (pre @ [(encK k, encV v)])))"
    by simp
  from Cons.IH [OF t' rest c', of "AList.update k v out"] nx tk tv pop kv
  show ?case by (subst map_To_loop.simps) simp
qed

lemma map_of_fold_update:
  "map_of (fold (\<lambda>(k, v). AList.update k v) kvs al) = map_of al ++ map_of (rev kvs)"
proof (induction kvs arbitrary: al)
  case Nil
  then show ?case by simp
next
  case (Cons kv kvs)
  obtain k v where kv: "kv = (k, v)" by (cases kv)
  have "map_of (fold (\<lambda>(k, v). AList.update k v) (kv # kvs) al)
      = map_of (AList.update k v al) ++ map_of (rev kvs)"
    using Cons.IH [of "AList.update k v al"] kv by simp
  also have "\<dots> = map_of al ++ map_of (rev (kv # kvs))"
    using kv by (simp add: update_conv' map_add_upd_left)
  finally show ?case .
qed

lemma reads_slot_inj: "reads_slot toT value0 enc A \<Longrightarrow> inj_on enc A"
proof (rule inj_onI)
  fix x y
  assume r: "reads_slot toT value0 enc A" and x: "x \<in> A" and y: "y \<in> A" and e: "enc x = enc y"
  let ?s = "push_value empty_state (enc x)"
  from r x have "toT ?s (- 1) value0 = Some (Inr (True, x, ?s))"
    by (simp add: reads_slot_def)
  moreover from r y e have "toT ?s (- 1) value0 = Some (Inr (True, y, ?s))"
    by (simp add: reads_slot_def)
  ultimately show "x = y" by simp
qed

lemma Type_map_To_absolute:
  assumes K: "reads_slot toK key0 encK A" and V: "reads_slot toV value0 encV B"
    and AB: "fst ` set kvs \<subseteq> A" "snd ` set kvs \<subseteq> B"
    and idx: "0 < idx" "idx \<le> int (length (stack s))"
      "stack s ! nat (int (length (stack s)) - idx) = LTable a"
    and a: "a < length (heap s)"
    and t: "heap s ! a = map (\<lambda>(k, v). (encK k, encV v)) kvs"
    and dist: "distinct (map fst (heap s ! a))" and nonnil: "LNil \<notin> fst ` set (heap s ! a)"
  shows "Type_map_To toK toV key0 value0 s idx out
     = Some (Inr (True, fold (\<lambda>(k, v). AList.update k v) kvs out, s))"
proof -
  have ty: "GetType s idx = Table"
    using idx by (simp add: GetType_def lua_type_def index2value_absolute to_LuaType_def LUA_T_defs)
  have t': "heap s ! a = [] @ map (\<lambda>(k, v). (encK k, encV v)) kvs"
    using t by simp
  have c: "([] = [] \<and> LNil = LNil) \<or> ([] \<noteq> [] \<and> LNil = fst (last []))"
    by simp
  have "map_To_loop toK toV key0 value0 (s\<lparr>stack := LNil # stack s\<rparr>) idx out
     = Some (Inr (True, fold (\<lambda>(k, v). AList.update k v) kvs out, s\<lparr>stack := stack s\<rparr>))"
    by (rule map_To_loop_traverse [OF K V idx a dist nonnil t' AB c])
  moreover have "StackAutoReset_release (StackAutoReset s) s = s"
    by (simp add: StackAutoReset_release_def StackAutoReset_def lua_settop_def lua_gettop_def)
  ultimately show ?thesis
    using ty by (simp add: Type_map_To_def leave_scope_def lua_pushnil_def push_value_def)
qed

lemma map_round_trip_absolute:
  assumes pK: "pushes_slot pushK encK" and pV: "pushes_slot pushV encV"
    and rK: "reads_slot toK key0 encK (fst ` set dict)"
    and rV: "reads_slot toV value0 encV (snd ` set dict)"
    and keys: "\<forall>k \<in> fst ` set dict. encK k \<noteq> LNil \<and> key_norm (encK k) = encK k"
    and vals: "\<forall>v \<in> snd ` set dict. encV v \<noteq> LNil"
    and dict: "distinct (map fst dict)"
    and kvs: "distinct (map fst kvs)" "set kvs = set dict"
  shows "\<exists>s1 out. Type_map_Push pushK pushV s dict = Inr s1 \<and>
     heap s1 ! length (heap s) = map (\<lambda>(k, v). (encK k, encV v)) dict \<and>
     Type_map_To toK toV key0 value0
         (s1\<lparr>heap := (heap s1)[length (heap s) := map (\<lambda>(k, v). (encK k, encV v)) kvs]\<rparr>)
         (lua_gettop s1) []
       = Some (Inr (True, out,
           s1\<lparr>heap := (heap s1)[length (heap s) := map (\<lambda>(k, v). (encK k, encV v)) kvs]\<rparr>)) \<and>
     map_of out = map_of dict"
proof -
  let ?enc = "\<lambda>(k, v). (encK k, encV v)"
  let ?a = "length (heap s)"
  let ?s1 = "s\<lparr>stack := LTable ?a # stack s, heap := heap s @ [map_table encK encV dict []]\<rparr>"
  let ?s2 = "?s1\<lparr>heap := (heap ?s1)[?a := map ?enc kvs]\<rparr>"
  let ?out = "fold (\<lambda>(k, v). AList.update k v) kvs []"
  have inj: "inj_on encK (fst ` set dict)" using rK by (rule reads_slot_inj)
  have push: "Type_map_Push pushK pushV s dict = Inr ?s1"
    using keys by (intro Type_map_Push_slots [OF pK pV]) simp
  have same: "set (map fst kvs) = fst ` set dict" "set (map fst dict) = fst ` set dict"
    using kvs(2) by simp_all
  have dm: "distinct (map encK xs)" if "distinct xs" "set xs = fst ` set dict" for xs
    using that inj by (subst distinct_map) simp
  have "distinct (map encK (map fst dict))"
    using dict same(2) by (rule dm)
  then have tbl: "map_table encK encV dict [] = map ?enc dict"
    using keys vals map_table_append [of "[]" encK dict encV] by simp
  have fst_enc: "map fst (map ?enc kvs) = map encK (map fst kvs)"
    by (induction kvs) auto
  have d2: "distinct (map fst (heap ?s2 ! ?a))"
    using dm [OF kvs(1) same(1)] by (simp add: fst_enc del: map_map)
  have "encK k \<noteq> LNil" if "(k, v) \<in> set kvs" for k v
  proof -
    from that kvs(2) have "k \<in> fst ` set dict" by force
    with keys show ?thesis by blast
  qed
  then have n2: "LNil \<notin> fst ` set (heap ?s2 ! ?a)"
    by (force simp: image_iff split: prod.splits)
  have to: "Type_map_To toK toV key0 value0 ?s2 (int (length (stack ?s2))) [] = Some (Inr (True, ?out, ?s2))"
    by (rule Type_map_To_absolute [OF rK rV _ _ _ _ _ _ _ d2 n2]) (simp_all add: kvs(2))
  have "map_of ?out = map_of (rev kvs)"
    by (simp add: map_of_fold_update)
  also have "\<dots> = map_of dict"
    using kvs dict by (subst map_of_inject_set) (simp_all add: rev_map [symmetric])
  finally have m: "map_of ?out = map_of dict" .
  from push tbl to m show ?thesis
    by (simp add: lua_gettop_def)
qed

lemma heap_empty_state: "heap empty_state = []"
  by (simp add: empty_state_def)

lemma stack_empty_state: "stack empty_state = []"
  by (simp add: empty_state_def)

lemma int_map_pushed:
  "Type_map_Push Type_int_Push Type_int_Push empty_state [(1, 10), (2, 20)]
     = Inr \<lparr>stack = [LTable 0], heap = [[(LInteger 1, LInteger 10), (LInteger 2, LInteger 20)]]\<rparr>"
  by code_simp








subsection \<open>Round trip of mappings\<close>

text \<open>
  Claim C6.  A map pushed with \<^verbatim>\<open>Type<std::map<K, V>>::Push\<close> and read back with \<^verbatim>\<open>To\<close>
  into an empty map should come back with the same pairs, in whatever order the table is
  traversed.  For key and value types of one slot the pushed table holds the encoded
  pairs.  Read at its absolute index, in any order of its entries, it gives back a map
  with the same pairs.  Read at the relative index \<open>-1\<close>, where \<^verbatim>\<open>Push\<close> has left it,
  \<^verbatim>\<open>lua_next\<close> is called on the \<open>nil\<close> pushed before the loop and \<^verbatim>\<open>To\<close> does not return.
\<close>

theorem map_round_trip_by_index:
  assumes pK: "pushes_slot pushK encK" and pV: "pushes_slot pushV encV"
    and rK: "reads_slot toK key0 encK (fst ` set dict)"
    and rV: "reads_slot toV value0 encV (snd ` set dict)"
    and keys: "\<forall>k \<in> fst ` set dict. encK k \<noteq> LNil \<and> key_norm (encK k) = encK k"
    and vals: "\<forall>v \<in> snd ` set dict. encV v \<noteq> LNil"
    and dict: "distinct (map fst dict)"
    and kvs: "distinct (map fst kvs)" "set kvs = set dict"
  shows "\<exists>s1 out. Type_map_Push pushK pushV s dict = Inr s1 \<and>
     heap s1 ! length (heap s) = map (\<lambda>(k, v). (encK k, encV v)) dict \<and>
     Type_map_To toK toV key0 value0 s1 (- 1) [] = Some (Inl UndefinedBehaviour) \<and>
     Type_map_To toK toV key0 value0
         (s1\<lparr>heap := (heap s1)[length (heap s) := map (\<lambda>(k, v). (encK k, encV v)) kvs]\<rparr>)
         (lua_gettop s1) []
       = Some (Inr (True, out,
           s1\<lparr>heap := (heap s1)[length (heap s) := map (\<lambda>(k, v). (encK k, encV v)) kvs]\<rparr>)) \<and>
     map_of out = map_of dict"
proof -
  from map_round_trip_absolute [OF assms, of s] obtain s1 out where
    push: "Type_map_Push pushK pushV s dict = Inr s1"
    and tbl: "heap s1 ! length (heap s) = map (\<lambda>(k, v). (encK k, encV v)) dict"
    and to: "Type_map_To toK toV key0 value0
         (s1\<lparr>heap := (heap s1)[length (heap s) := map (\<lambda>(k, v). (encK k, encV v)) kvs]\<rparr>)
         (lua_gettop s1) []
       = Some (Inr (True, out,
           s1\<lparr>heap := (heap s1)[length (heap s) := map (\<lambda>(k, v). (encK k, encV v)) kvs]\<rparr>))"
    and m: "map_of out = map_of dict"
    by blast
  from keys have "\<forall>k \<in> fst ` set dict. encK k \<noteq> LNil" by blast
  from Type_map_Push_slots [OF pK pV this, of s] push
  have "index2value s1 (- 1) = Some (LTable (length (heap s)))"
    by (auto simp: index2value_def index2addr_def)
  then have "Type_map_To toK toV key0 value0 s1 (- 1) [] = Some (Inl UndefinedBehaviour)"
    by (rule Type_map_To_top_relative)
  with push tbl to m show ?thesis by blast
qed

theorem map_round_trip_by_index_witness:
  "Type_map_Push Type_int_Push Type_int_Push empty_state [(1, 10), (2, 20)]
     = Inr \<lparr>stack = [LTable 0], heap = [[(LInteger 1, LInteger 10), (LInteger 2, LInteger 20)]]\<rparr> \<and>
   Type_map_To (Type_int_To example_numerics) (Type_int_To example_numerics) 0 0
       \<lparr>stack = [LTable 0], heap = [[(LInteger 1, LInteger 10), (LInteger 2, LInteger 20)]]\<rparr> (- 1) []
     = Some (Inl UndefinedBehaviour) \<and>
   (\<exists>out. Type_map_To (Type_int_To example_numerics) (Type_int_To example_numerics) 0 0
       \<lparr>stack = [LTable 0], heap = [[(LInteger 2, LInteger 20), (LInteger 1, LInteger 10)]]\<rparr> 1 []
     = Some (Inr (True, out,
         \<lparr>stack = [LTable 0], heap = [[(LInteger 2, LInteger 20), (LInteger 1, LInteger 10)]]\<rparr>)) \<and>
     map_of out = map_of [(1, 10), (2, 20)])"
proof -
  have keys: "\<forall>k \<in> fst ` set [(1 :: c_int, 10 :: c_int), (2, 20)].
      LInteger (scast k) \<noteq> LNil \<and> key_norm (LInteger (scast k)) = LInteger (scast k)"
    by (simp add: key_norm_def)
  have vals: "\<forall>v \<in> snd ` set [(1 :: c_int, 10 :: c_int), (2, 20)]. LInteger (scast v) \<noteq> LNil"
    by simp
  have d1: "distinct (map fst [(1 :: c_int, 10 :: c_int), (2, 20)])" by simp
  have d2: "distinct (map fst [(2 :: c_int, 20 :: c_int), (1, 10)])" by simp
  have eq: "set [(2 :: c_int, 20 :: c_int), (1, 10)] = set [(1, 10), (2, 20)]" by auto
  note r = int_reads_slot [of example_numerics 0]
  from map_round_trip_by_index [OF int_pushes_slot int_pushes_slot r r keys vals d1 d2 eq,
      of empty_state]
  show ?thesis
    by (simp add: int_map_pushed lua_gettop_def heap_empty_state)
qed

subsection \<open>What a failed conversion leaves in the output\<close>















lemma vector_To_mixed_table:
  "Type_vector_To (Type_int_To example_numerics) 0 example_numerics mixed_table_state 1 [100, 200]
     = Some (Inr (False, [100, 200, 7], mixed_table_state))"
  by code_simp

lemma map_To_mixed_table:
  "Type_map_To (Type_int_To example_numerics) (Type_int_To example_numerics) 0 0
       mixed_table_state 1 [(5, 50)]
     = Some (Inr (False, [(5, 50), (1, 7)], mixed_table_state))"
  by code_simp

lemma int_To_boolean_slot:
  "Type_int_To example_numerics (lua_pushboolean empty_state True) (- 1) 5
     = Some (Inr (False, 5, lua_pushboolean empty_state True))"
  by code_simp
























subsection \<open>Stack height\<close>











subsection \<open>Well-formed states\<close>












subsection \<open>Calls that return\<close>


















lemma run_example_calls:
  "run_calls example_calls empty_state
     = Some (Inr \<lparr>stack = [LTable 1, LTable 0, LInteger 7],
                   heap = [[(LInteger 1, LInteger 1), (LInteger 2, LInteger 2)],
                           [(LInteger 1, LString ''a'')]]\<rparr>)"
  by code_simp




end
